theory Spec2Isabelle
  imports Complex_Main "HOL-Library.AList"
begin

section \<open>JavaScript values\<close>

text \<open>
  A Number is \<open>NaN\<close>, an infinity, the negative zero or a finite value. A finite value is
  the rational that the binary64 value stands for; \<open>Fin 0\<close> is the positive zero. The
  arithmetic below rounds every result to binary64 (\<open>to_binary64\<close>).
\<close>

datatype jsnum = NaN | PosInf | NegInf | NegZero | Fin rat

text \<open>
  What \<open>JSON.parse\<close> returns. An object is the list of its own properties in
  enumeration order; \<open>map_of\<close> reads a property. A number is the Number that the parser
  read (an infinity for a literal beyond the range). A string is a list of code units
  below 256.
\<close>

datatype json =
    JNull
  | JBool bool
  | JNum jsnum
  | JStr string
  | JArr "json list"
  | JObj "(string \<times> json) list"

type_synonym jsobject = "(string \<times> json) list"

text \<open>
  A variable that holds a Number at one point and a String at another
  (\<open>totalWalletUSDValue\<close> in the route handler).
\<close>

datatype jsval = VNum jsnum | VStr string

text \<open>
  Exceptions. \<open>Error\<close> carries the message the program gives to \<open>new Error(...)\<close>;
  the others are raised by the engine, by \<open>fetch\<close> and by the formatting library.
\<close>

datatype exn = TypeError | SyntaxError | RangeError | NetworkError | LibraryError | Error string

text \<open>
  A value of \<open>req.query\<close>: a string; an array for a repeated parameter; and, with the
  framework's extended query parser (which accepts the names of \<open>Object.prototype\<close> as
  keys), an object for the bracket form \<open>a[k]=v\<close>. The simple parser gives strings and
  arrays of strings only.
\<close>

datatype qval = QStr string | QArr "qval list" | QObj "(string \<times> qval) list"

subsection \<open>The response of an upstream call\<close>

record response =
  status :: nat
  statusText :: string
  body_text :: "exn + string"
  body_json :: "exn + json"

definition ok :: "response \<Rightarrow> bool" where
  "ok r = (200 \<le> status r \<and> status r \<le> 299)"

datatype fetch_result = Rejects exn | Resolves response

subsection \<open>The environment of the program\<close>

text \<open>
  What the program calls and this repository does not define:
  \<^item> \<open>numbro\<close>: \<open>numbro(v).format(f)\<close> of the formatting library, which returns a string
    or throws;
  \<^item> \<open>Number_toString\<close>: the engine's decimal rendering of a finite Number other than
    zero (the shortest digits that read back as the same binary64 value), used only
    where the result depends on those digits;
  \<^item> \<open>Math_pow\<close>: the engine's \<open>Math.pow(10, n)\<close> for an integer \<open>n\<close> whose power is not
    a binary64 value and is inside the range: the standard leaves its last bit to the
    implementation;
  \<^item> \<open>fetch\<close>: the upstream service, a function of the URL (the request headers are the
    same on every call).
\<close>

record env =
  numbro :: "jsval \<Rightarrow> string \<Rightarrow> exn + string"
  Number_toString :: "rat \<Rightarrow> string"
  Math_pow :: "int \<Rightarrow> jsnum"
  fetch :: "string \<Rightarrow> fetch_result"

text \<open>What the program does to the outside: outbound requests and \<open>console.error\<close>
  calls (recorded by their first argument).\<close>

datatype event = Fetch string | ConsoleError string

section \<open>Built-in functions of the language\<close>

subsection \<open>Characters and digits\<close>

definition code :: "char \<Rightarrow> nat" where
  "code c = of_char c"

definition is_digit :: "char \<Rightarrow> bool" where
  "is_digit c = (code CHR ''0'' \<le> code c \<and> code c \<le> code CHR ''9'')"

definition is_hex_digit :: "char \<Rightarrow> bool" where
  "is_hex_digit c =
     (is_digit c \<or> (code CHR ''a'' \<le> code c \<and> code c \<le> code CHR ''f'')
      \<or> (code CHR ''A'' \<le> code c \<and> code c \<le> code CHR ''F''))"

text \<open>The value of a digit; the letters count from ten, as in a hexadecimal literal.\<close>

definition digit_val :: "char \<Rightarrow> nat" where
  "digit_val c =
     (if is_digit c then code c - code CHR ''0''
      else if code CHR ''a'' \<le> code c \<and> code c \<le> code CHR ''f'' then code c - code CHR ''a'' + 10
      else code c - code CHR ''A'' + 10)"

text \<open>\<open>StrWhiteSpaceChar\<close> among the code units below 256.\<close>

definition is_ws :: "char \<Rightarrow> bool" where
  "is_ws c = (code c \<in> {9, 10, 11, 12, 13, 32, 160})"

definition digits_val :: "int \<Rightarrow> string \<Rightarrow> int" where
  "digits_val base ds = foldl (\<lambda>n c. base * n + int (digit_val c)) 0 ds"

definition digit_char :: "nat \<Rightarrow> char" where
  "digit_char d = ''0123456789'' ! d"

text \<open>The decimal digits of a natural number, as in a template literal \<open>${25}\<close>.\<close>

fun dec :: "nat \<Rightarrow> string" where
  "dec n = (if n < 10 then [digit_char n] else dec (n div 10) @ [digit_char (n mod 10)])"

declare dec.simps [simp del]

subsection \<open>Rounding to binary64\<close>

text \<open>The number of binary digits of a positive integer.\<close>

function bit_length :: "int \<Rightarrow> int" where
  "bit_length n = (if n \<le> 0 then 0 else 1 + bit_length (n div 2))"
  by auto
termination
  by (relation "measure nat") auto

declare bit_length.simps [simp del]

definition pow2 :: "int \<Rightarrow> rat" where
  "pow2 n = (if 0 \<le> n then 2 ^ nat n else 1 / 2 ^ nat (- n))"

definition pow10 :: "int \<Rightarrow> rat" where
  "pow10 n = (if 0 \<le> n then 10 ^ nat n else 1 / 10 ^ nat (- n))"

text \<open>The binary exponent of a positive rational \<open>a\<close>: \<open>2^e \<le> a < 2^(e+1)\<close>.\<close>

definition floor_log2 :: "rat \<Rightarrow> int" where
  "floor_log2 a =
     (if 1 \<le> a then bit_length \<lfloor>a\<rfloor> - 1 else - bit_length (\<lceil>1 / a\<rceil> - 1))"

definition round_half_even :: "rat \<Rightarrow> int" where
  "round_half_even x =
     (if x - of_int \<lfloor>x\<rfloor> < 1 / 2 then \<lfloor>x\<rfloor>
      else if 1 / 2 < x - of_int \<lfloor>x\<rfloor> then \<lfloor>x\<rfloor> + 1
      else if even \<lfloor>x\<rfloor> then \<lfloor>x\<rfloor> else \<lfloor>x\<rfloor> + 1)"

definition signed_zero :: "bool \<Rightarrow> jsnum" where
  "signed_zero neg = (if neg then NegZero else Fin 0)"

definition signed_infinity :: "bool \<Rightarrow> jsnum" where
  "signed_infinity neg = (if neg then NegInf else PosInf)"

text \<open>
  The Number with the sign \<open>neg\<close>, the significand \<open>m\<close> (an integer up to \<open>2^53\<close>) and the
  exponent \<open>e\<close>, that is \<open>m * 2^(e - 52)\<close>: an infinity from \<open>2^1024\<close> on, a zero for the
  significand 0.
\<close>

definition binary64_value :: "bool \<Rightarrow> int \<Rightarrow> int \<Rightarrow> jsnum" where
  "binary64_value neg e m =
     (if 1024 \<le> e \<or> (e = 1023 \<and> m = 2 ^ 53) then signed_infinity neg
      else if m = 0 then signed_zero neg
      else Fin ((if neg then - 1 else 1) * of_int m * pow2 (e - 52)))"

text \<open>
  The Number value for a real: the nearest binary64 value, the one with an even
  significand on a tie. The significand has 53 bits, the exponent is at least \<open>-1022\<close>
  (below it the values are \<open>2^-1074\<close> apart). The real 0 gives the positive zero; a
  negative real that rounds to zero gives the negative zero.
\<close>

definition round_at :: "bool \<Rightarrow> rat \<Rightarrow> int \<Rightarrow> jsnum" where
  "round_at neg a e = binary64_value neg e (round_half_even (a / pow2 (e - 52)))"

definition to_binary64 :: "rat \<Rightarrow> jsnum" where
  "to_binary64 x =
     (if x = 0 then Fin 0 else round_at (x < 0) \<bar>x\<bar> (max (floor_log2 \<bar>x\<bar>) (- 1022)))"

subsection \<open>Arithmetic on Numbers\<close>

definition isNaN :: "jsnum \<Rightarrow> bool" where
  "isNaN x = (x = NaN)"

fun is_zero :: "jsnum \<Rightarrow> bool" where
  "is_zero NegZero = True"
| "is_zero (Fin x) = (x = 0)"
| "is_zero NaN = False"
| "is_zero PosInf = False"
| "is_zero NegInf = False"

fun is_infinite :: "jsnum \<Rightarrow> bool" where
  "is_infinite PosInf = True"
| "is_infinite NegInf = True"
| "is_infinite NaN = False"
| "is_infinite NegZero = False"
| "is_infinite (Fin x) = False"

text \<open>The sign bit.\<close>

fun negative :: "jsnum \<Rightarrow> bool" where
  "negative NegInf = True"
| "negative NegZero = True"
| "negative (Fin x) = (x < 0)"
| "negative NaN = False"
| "negative PosInf = False"

fun jsneg :: "jsnum \<Rightarrow> jsnum" where
  "jsneg NaN = NaN"
| "jsneg PosInf = NegInf"
| "jsneg NegInf = PosInf"
| "jsneg NegZero = Fin 0"
| "jsneg (Fin x) = (if x = 0 then NegZero else Fin (- x))"

text \<open>\<open>a + b\<close> on Numbers.\<close>

fun jsadd :: "jsnum \<Rightarrow> jsnum \<Rightarrow> jsnum" where
  "jsadd NaN _ = NaN"
| "jsadd _ NaN = NaN"
| "jsadd PosInf NegInf = NaN"
| "jsadd NegInf PosInf = NaN"
| "jsadd PosInf _ = PosInf"
| "jsadd _ PosInf = PosInf"
| "jsadd NegInf _ = NegInf"
| "jsadd _ NegInf = NegInf"
| "jsadd NegZero NegZero = NegZero"
| "jsadd NegZero (Fin y) = Fin y"
| "jsadd (Fin x) NegZero = Fin x"
| "jsadd (Fin x) (Fin y) = (if x + y = 0 then Fin 0 else to_binary64 (x + y))"

text \<open>\<open>a / b\<close> on Numbers.\<close>

definition jsdiv :: "jsnum \<Rightarrow> jsnum \<Rightarrow> jsnum" where
  "jsdiv a b =
     (if a = NaN \<or> b = NaN then NaN
      else if is_infinite a
        then (if is_infinite b then NaN else signed_infinity (negative a \<noteq> negative b))
      else if is_infinite b then signed_zero (negative a \<noteq> negative b)
      else if is_zero b
        then (if is_zero a then NaN else signed_infinity (negative a \<noteq> negative b))
      else if is_zero a then signed_zero (negative a \<noteq> negative b)
      else (case (a, b) of (Fin x, Fin y) \<Rightarrow> to_binary64 (x / y) | _ \<Rightarrow> NaN))"

text \<open>
  \<open>Math.pow(10, e)\<close> for an exponent that \<open>parseInt\<close> returned: \<open>NaN\<close> (here \<open>None\<close>) or
  an integer. The powers \<open>10^0\<close> to \<open>10^22\<close> are binary64 values, which the engine returns
  exactly; \<open>10^309\<close> is beyond the largest one and \<open>10^-324\<close> is less than half the
  smallest one.
\<close>

fun Math_pow10 :: "env \<Rightarrow> int option \<Rightarrow> jsnum" where
  "Math_pow10 E None = NaN"
| "Math_pow10 E (Some n) =
     (if 0 \<le> n \<and> n \<le> 22 then Fin (10 ^ nat n)
      else if 309 \<le> n then PosInf
      else if n \<le> - 324 then Fin 0
      else Math_pow E n)"

subsection \<open>ToString\<close>

text \<open>\<open>ToString\<close> of a Number.\<close>

fun ToString_num :: "env \<Rightarrow> jsnum \<Rightarrow> string" where
  "ToString_num E NaN = ''NaN''"
| "ToString_num E PosInf = ''Infinity''"
| "ToString_num E NegInf = ''-Infinity''"
| "ToString_num E NegZero = ''0''"
| "ToString_num E (Fin x) = (if x = 0 then ''0'' else Number_toString E x)"

text \<open>
  \<open>ToString\<close> of a parsed JSON value. An array joins its elements with commas, \<open>null\<close>
  elements as the empty string. An object without an own \<open>toString\<close> property inherits
  the one of \<open>Object.prototype\<close>; an own \<open>toString\<close> parsed from JSON is not callable,
  and neither \<open>valueOf\<close> then yields a primitive: a TypeError.
\<close>

fun ToString :: "env \<Rightarrow> json \<Rightarrow> exn + string"
  and join_elements :: "env \<Rightarrow> json list \<Rightarrow> exn + string" where
  "ToString E JNull = Inr ''null''"
| "ToString E (JBool b) = Inr (if b then ''true'' else ''false'')"
| "ToString E (JNum x) = Inr (ToString_num E x)"
| "ToString E (JStr s) = Inr s"
| "ToString E (JArr xs) = join_elements E xs"
| "ToString E (JObj kvs) =
     (if ''toString'' \<in> set (map fst kvs) then Inl TypeError else Inr ''[object Object]'')"
| "join_elements E [] = Inr ''''"
| "join_elements E (x # xs) =
     (case (if x = JNull then Inr '''' else ToString E x) of
        Inl e \<Rightarrow> Inl e
      | Inr a \<Rightarrow>
          (if xs = [] then Inr a
           else case join_elements E xs of Inl e \<Rightarrow> Inl e | Inr b \<Rightarrow> Inr (a @ '','' @ b)))"

text \<open>
  \<open>ToString\<close> of a query value, as in the template literal of a URL; an object with a
  key \<open>toString\<close> has no callable \<open>toString\<close>, as above.
\<close>

fun ToString_q :: "qval \<Rightarrow> exn + string"
  and join_q :: "qval list \<Rightarrow> exn + string" where
  "ToString_q (QStr s) = Inr s"
| "ToString_q (QArr xs) = join_q xs"
| "ToString_q (QObj kvs) =
     (if ''toString'' \<in> set (map fst kvs) then Inl TypeError else Inr ''[object Object]'')"
| "join_q [] = Inr ''''"
| "join_q (x # xs) =
     (case ToString_q x of
        Inl e \<Rightarrow> Inl e
      | Inr a \<Rightarrow>
          (if xs = [] then Inr a
           else case join_q xs of Inl e \<Rightarrow> Inl e | Inr b \<Rightarrow> Inr (a @ '','' @ b)))"

text \<open>Truthiness: \<open>if (v)\<close>, \<open>!v\<close>, \<open>v || w\<close>.\<close>

fun truthy_q :: "qval \<Rightarrow> bool" where
  "truthy_q (QStr s) = (s \<noteq> '''')"
| "truthy_q (QArr xs) = True"
| "truthy_q (QObj kvs) = True"

fun truthy :: "json option \<Rightarrow> bool" where
  "truthy None = False"
| "truthy (Some JNull) = False"
| "truthy (Some (JBool b)) = b"
| "truthy (Some (JNum x)) = (x \<noteq> NaN \<and> \<not> is_zero x)"
| "truthy (Some (JStr s)) = (s \<noteq> '''')"
| "truthy (Some (JArr xs)) = True"
| "truthy (Some (JObj kvs)) = True"

subsection \<open>parseFloat and parseInt\<close>

fun parse_sign :: "string \<Rightarrow> bool \<times> string" where
  "parse_sign [] = (False, [])"
| "parse_sign (c # cs) =
     (if c = CHR ''-'' then (True, cs) else if c = CHR ''+'' then (False, cs) else (False, c # cs))"

text \<open>The value of an optional \<open>ExponentPart\<close> at the head of a string.\<close>

definition parse_exponent :: "string \<Rightarrow> int" where
  "parse_exponent s =
     (case s of
        [] \<Rightarrow> 0
      | c # cs \<Rightarrow>
          if c = CHR ''e'' \<or> c = CHR ''E'' then
            (let (neg, r) = parse_sign cs; ds = takeWhile is_digit r
             in if ds = [] then 0
                else if neg then - digits_val 10 ds else digits_val 10 ds)
          else 0)"

text \<open>
  The Number for the digits \<open>ip\<close> before the point, the digits \<open>fp\<close> after it and what
  follows them: the mathematical value of the literal, rounded; \<open>NaN\<close> when there is no
  digit. (The standard lets an engine round a literal of more than 20 significant digits
  less exactly; the engine of the program rounds it correctly.)
\<close>

definition literal_value :: "string \<Rightarrow> string \<Rightarrow> string \<Rightarrow> jsnum" where
  "literal_value ip fp rest =
     (if ip = [] \<and> fp = [] then NaN
      else to_binary64
             ((of_int (digits_val 10 ip) + of_int (digits_val 10 fp) / 10 ^ length fp)
              * pow10 (parse_exponent rest)))"

text \<open>The longest prefix that is an unsigned \<open>StrDecimalLiteral\<close>, as a Number.\<close>

definition unsigned_literal :: "string \<Rightarrow> jsnum" where
  "unsigned_literal s =
     (if take 8 s = ''Infinity'' then PosInf
      else
        case dropWhile is_digit s of
          [] \<Rightarrow> literal_value (takeWhile is_digit s) [] []
        | c # cs \<Rightarrow>
            if c = CHR ''.''
            then literal_value (takeWhile is_digit s) (takeWhile is_digit cs) (dropWhile is_digit cs)
            else literal_value (takeWhile is_digit s) [] (c # cs))"

definition parseFloat_str :: "string \<Rightarrow> jsnum" where
  "parseFloat_str s =
     (let (neg, r) = parse_sign (dropWhile is_ws s); v = unsigned_literal r
      in if neg then jsneg v else v)"

text \<open>
  \<open>parseInt(s)\<close> with no radix: \<open>None\<close> is \<open>NaN\<close>, otherwise the result is an integer. The
  engine rounds the integer to binary64; the program uses it as an exponent of 10 only,
  where an integer that the rounding changes is beyond \<open>2^53\<close> and the power is an
  infinity or zero before and after the rounding.
\<close>

definition parseInt_str :: "string \<Rightarrow> int option" where
  "parseInt_str s =
     (let (neg, r) = parse_sign (dropWhile is_ws s);
          hex = (take 2 r = ''0x'' \<or> take 2 r = ''0X'');
          ds = (if hex then takeWhile is_hex_digit (drop 2 r) else takeWhile is_digit r);
          n = digits_val (if hex then 16 else 10) ds
      in if ds = [] then None else Some (if neg then - n else n))"

text \<open>
  \<open>parseFloat(v)\<close> for a property value \<open>v\<close> (\<open>None\<close> is \<open>undefined\<close>). The argument goes
  through \<open>ToString\<close>; for a Number the digits read back as the Number itself, the
  negative zero as the positive one.
\<close>

fun parseFloat :: "env \<Rightarrow> json option \<Rightarrow> exn + jsnum" where
  "parseFloat E None = Inr NaN"
| "parseFloat E (Some (JNum x)) = Inr (if x = NegZero then Fin 0 else x)"
| "parseFloat E (Some v) =
     (case ToString E v of Inl e \<Rightarrow> Inl e | Inr s \<Rightarrow> Inr (parseFloat_str s))"

text \<open>
  \<open>parseInt(v)\<close>. A finite Number is printed in decimal notation when it is zero or
  \<open>10^-6 \<le> |x| < 10^21\<close>, and \<open>parseInt\<close> then reads its integer part; outside that range
  the engine prints an exponent and the result depends on the printed digits.
\<close>

fun parseInt :: "env \<Rightarrow> json option \<Rightarrow> exn + int option" where
  "parseInt E None = Inr None"
| "parseInt E (Some (JNum (Fin x))) =
     (if x = 0 \<or> (1 / 10 ^ 6 \<le> \<bar>x\<bar> \<and> \<bar>x\<bar> < 10 ^ 21)
      then Inr (Some (if 0 \<le> x then \<lfloor>x\<rfloor> else \<lceil>x\<rceil>))
      else Inr (parseInt_str (Number_toString E x)))"
| "parseInt E (Some (JNum NegZero)) = Inr (Some 0)"
| "parseInt E (Some (JNum NaN)) = Inr None"
| "parseInt E (Some (JNum PosInf)) = Inr None"
| "parseInt E (Some (JNum NegInf)) = Inr None"
| "parseInt E (Some v) =
     (case ToString E v of Inl e \<Rightarrow> Inl e | Inr s \<Rightarrow> Inr (parseInt_str s))"

subsection \<open>Number.prototype.toFixed\<close>

text \<open>
  \<open>x.toFixed(f)\<close>: the integer \<open>n\<close> nearest to \<open>|x| * 10^f\<close> (the larger on a tie), its
  digits padded to \<open>f + 1\<close> places, a point before the last \<open>f\<close>.
\<close>

definition fixed_digits :: "nat \<Rightarrow> nat \<Rightarrow> string" where
  "fixed_digits f n =
     (let m = replicate (f + 1 - length (dec n)) CHR ''0'' @ dec n
      in if f = 0 then m else take (length m - f) m @ ''.'' @ drop (length m - f) m)"

fun toFixed_num :: "env \<Rightarrow> jsnum \<Rightarrow> nat \<Rightarrow> exn + string" where
  "toFixed_num E x f =
     (if 100 < f then Inl RangeError
      else case x of
          Fin q \<Rightarrow>
            if 10 ^ 21 \<le> \<bar>q\<bar> then Inr (Number_toString E q)
            else Inr ((if q < 0 then ''-'' else '''') @ fixed_digits f (nat \<lfloor>\<bar>q\<bar> * 10 ^ f + 1 / 2\<rfloor>))
        | NegZero \<Rightarrow> Inr (fixed_digits f 0)
        | _ \<Rightarrow> Inr (ToString_num E x))"

declare toFixed_num.simps [simp del]

text \<open>\<open>v.toFixed(f)\<close> on a variable: a String has no such method.\<close>

fun toFixed :: "env \<Rightarrow> jsval \<Rightarrow> nat \<Rightarrow> exn + string" where
  "toFixed E (VNum x) f = toFixed_num E x f"
| "toFixed E (VStr s) f = Inl TypeError"

text \<open>\<open>v += x\<close> for a Number \<open>x\<close>: addition, or concatenation when \<open>v\<close> holds a String.\<close>

fun plus_assign :: "env \<Rightarrow> jsval \<Rightarrow> jsnum \<Rightarrow> jsval" where
  "plus_assign E (VNum a) x = VNum (jsadd a x)"
| "plus_assign E (VStr s) x = VStr (s @ ToString_num E x)"

section \<open>The program\<close>

text \<open>
  The definitions follow lines 1-194 of \<open>server.js\<close>. Lines 195-303 of the file repeat an
  earlier version of it: the same getWalletBalances, and a handler that calls only
  getWalletBalances and renders the fixed total \<open>$0.00\<close>.
\<close>

subsection \<open>Exceptions, property access, spread\<close>

text \<open>Sequencing: an exception of the first step skips the second.\<close>

definition bind_exn :: "exn + 'a \<Rightarrow> ('a \<Rightarrow> exn + 'b) \<Rightarrow> exn + 'b" where
  "bind_exn m f = (case m of Inl e \<Rightarrow> Inl e | Inr x \<Rightarrow> f x)"

text \<open>\<open>xs.map(f)\<close> on an array: the first exception of \<open>f\<close> ends the loop.\<close>

fun map_exn :: "('a \<Rightarrow> exn + 'b) \<Rightarrow> 'a list \<Rightarrow> exn + 'b list" where
  "map_exn f [] = Inr []"
| "map_exn f (x # xs) =
     bind_exn (f x) (\<lambda>y. bind_exn (map_exn f xs) (\<lambda>ys. Inr (y # ys)))"

text \<open>
  \<open>v.k\<close> for the property names this program reads (\<open>balances\<close>, \<open>activity\<close>,
  \<open>collectibles\<close>, \<open>amount\<close>, \<open>decimals\<close>, \<open>value_usd\<close>, \<open>symbol\<close>), none of which is a
  property of a built-in prototype: \<open>null\<close> has no properties (a TypeError), an object
  answers with its own property, any other value with \<open>undefined\<close> (\<open>None\<close>).
\<close>

fun getprop :: "json \<Rightarrow> string \<Rightarrow> exn + json option" where
  "getprop JNull k = Inl TypeError"
| "getprop (JObj kvs) k = Inr (map_of kvs k)"
| "getprop (JBool b) k = Inr None"
| "getprop (JNum x) k = Inr None"
| "getprop (JStr s) k = Inr None"
| "getprop (JArr xs) k = Inr None"

text \<open>
  \<open>{...token}\<close>: the own enumerable properties of the value. An array and a string have
  their indices; a number and a boolean have none.
\<close>

fun index_keys :: "nat \<Rightarrow> json list \<Rightarrow> jsobject" where
  "index_keys i [] = []"
| "index_keys i (x # xs) = (dec i, x) # index_keys (Suc i) xs"

fun spread :: "json \<Rightarrow> jsobject" where
  "spread (JObj kvs) = kvs"
| "spread (JArr xs) = index_keys 0 xs"
| "spread (JStr s) = index_keys 0 (map (\<lambda>c. JStr [c]) s)"
| "spread JNull = []"
| "spread (JBool b) = []"
| "spread (JNum x) = []"

text \<open>\<open>v || []\<close>.\<close>

fun or_empty :: "json option \<Rightarrow> json" where
  "or_empty None = JArr []"
| "or_empty (Some v) = (if truthy (Some v) then v else JArr [])"

text \<open>\<open>v.map(f)\<close>: only an array has a callable \<open>map\<close>.\<close>

fun array_map :: "(json \<Rightarrow> exn + 'b) \<Rightarrow> json \<Rightarrow> exn + 'b list" where
  "array_map f (JArr xs) = map_exn f xs"
| "array_map f JNull = Inl TypeError"
| "array_map f (JBool b) = Inl TypeError"
| "array_map f (JNum x) = Inl TypeError"
| "array_map f (JStr s) = Inl TypeError"
| "array_map f (JObj kvs) = Inl TypeError"

subsection \<open>The upstream request\<close>

text \<open>
  Lines 40-53 of \<open>server.js\<close>, and with another label lines 85-98 and 113-126: the
  request, the check of \<open>response.ok\<close>, and the parsed body.
\<close>

definition request_json :: "env \<Rightarrow> string \<Rightarrow> string \<Rightarrow> event list \<times> (exn + json)" where
  "request_json E url label =
     (case fetch E url of
        Rejects e \<Rightarrow> ([Fetch url], Inl e)
      | Resolves response \<Rightarrow>
          if \<not> ok response then
            (case body_text response of
               Inl e \<Rightarrow> ([Fetch url], Inl e)
             | Inr errorBody \<Rightarrow>
                 ([Fetch url,
                   ConsoleError (label @ '' with status '' @ dec (status response) @ '': ''
                                 @ statusText response)],
                  Inl (Error (label @ '': '' @ statusText response))))
          else ([Fetch url], body_json response))"

subsection \<open>getWalletBalances\<close>

text \<open>Line 58: the human-readable amount of a token.\<close>

definition numericAmount :: "env \<Rightarrow> json \<Rightarrow> exn + jsnum" where
  "numericAmount E token =
     bind_exn (getprop token ''amount'') (\<lambda>amount.
     bind_exn (parseFloat E amount) (\<lambda>a.
     bind_exn (getprop token ''decimals'') (\<lambda>decimals.
     bind_exn (parseInt E decimals) (\<lambda>d.
     Inr (jsdiv a (Math_pow10 E d))))))"

text \<open>Line 60.\<close>

definition numericValueUSD :: "env \<Rightarrow> json \<Rightarrow> exn + jsnum" where
  "numericValueUSD E token =
     bind_exn (getprop token ''value_usd'') (\<lambda>value_usd. parseFloat E value_usd)"

text \<open>Lines 56-69: the callback of \<open>map\<close>.\<close>

definition format_token :: "env \<Rightarrow> json \<Rightarrow> exn + jsobject" where
  "format_token E token =
     bind_exn (numericAmount E token) (\<lambda>amount.
     bind_exn (numericValueUSD E token) (\<lambda>valueUSD.
     bind_exn (numbro E (VNum valueUSD) ''$0,0.00'') (\<lambda>valueUSDFormatted.
     bind_exn (numbro E (VNum amount) ''0,0.[00]A'') (\<lambda>amountFormatted.
     Inr (AList.update ''amountFormatted'' (JStr amountFormatted)
           (AList.update ''valueUSDFormatted'' (JStr valueUSDFormatted) (spread token)))))))"

text \<open>Line 70: the predicate of \<open>filter\<close>.\<close>

definition not_spam :: "jsobject \<Rightarrow> bool" where
  "not_spam token = (map_of token ''symbol'' \<noteq> Some (JStr ''RTFKT''))"

text \<open>Lines 56-70.\<close>

definition format_balances :: "env \<Rightarrow> json \<Rightarrow> exn + jsobject list" where
  "format_balances E data =
     bind_exn (getprop data ''balances'') (\<lambda>balances.
     bind_exn (array_map (format_token E) (or_empty balances)) (\<lambda>formatted.
     Inr (filter not_spam formatted)))"

text \<open>Lines 35-37, for the string of the address.\<close>

definition balances_url :: "string \<Rightarrow> string" where
  "balances_url address =
     (let queryParams = ''metadata=url,logo&exclude_spam_tokens=true''
      in ''https://api.sim.dune.com/v1/evm/balances/'' @ address @ ''?'' @ queryParams)"

text \<open>
  Lines 29-76. The function is \<open>async\<close>: the second component is the value its promise
  resolves with, or the exception it rejects with. The template literal of line 37
  stands before the \<open>try\<close>: an address that has no string makes the promise reject.
\<close>

definition getWalletBalances :: "env \<Rightarrow> qval \<Rightarrow> event list \<times> (exn + jsobject list)" where
  "getWalletBalances E walletAddress =
     (if \<not> truthy_q walletAddress then ([], Inr [])
      else
        case ToString_q walletAddress of
          Inl e \<Rightarrow> ([], Inl e)
        | Inr address \<Rightarrow>
            let (evs, r) = request_json E (balances_url address) ''API request failed''
            in case bind_exn r (format_balances E) of
                 Inr formatted \<Rightarrow> (evs, Inr formatted)
               | Inl error \<Rightarrow> (evs @ [ConsoleError ''Error fetching wallet balances:''], Inr []))"

subsection \<open>getWalletActivity and getWalletCollectibles\<close>

definition activity_url :: "string \<Rightarrow> nat \<Rightarrow> string" where
  "activity_url address limit =
     ''https://api.sim.dune.com/v1/evm/activity/'' @ address @ ''?limit='' @ dec limit"

text \<open>Lines 77-105.\<close>

definition getWalletActivity :: "env \<Rightarrow> qval \<Rightarrow> nat \<Rightarrow> event list \<times> (exn + json)" where
  "getWalletActivity E walletAddress limit =
     (if \<not> truthy_q walletAddress then ([], Inr (JArr []))
      else
        case ToString_q walletAddress of
          Inl e \<Rightarrow> ([], Inl e)
        | Inr address \<Rightarrow>
            let (evs, r) = request_json E (activity_url address limit)
                             ''Activity API request failed''
            in case bind_exn r (\<lambda>data. getprop data ''activity'') of
                 Inr activity \<Rightarrow> (evs, Inr (or_empty activity))
               | Inl error \<Rightarrow>
                   (evs @ [ConsoleError ''Error fetching wallet activity:''], Inr (JArr [])))"

definition collectibles_url :: "string \<Rightarrow> nat \<Rightarrow> string" where
  "collectibles_url address limit =
     ''https://api.sim.dune.com/v1/evm/collectibles/'' @ address @ ''?limit='' @ dec limit"

text \<open>Lines 107-132.\<close>

definition getWalletCollectibles :: "env \<Rightarrow> qval \<Rightarrow> nat \<Rightarrow> event list \<times> (exn + json)" where
  "getWalletCollectibles E walletAddress limit =
     (if \<not> truthy_q walletAddress then ([], Inr (JArr []))
      else
        case ToString_q walletAddress of
          Inl e \<Rightarrow> ([], Inl e)
        | Inr address \<Rightarrow>
            let (evs, r) = request_json E (collectibles_url address limit)
                             ''Collectibles API request failed''
            in case bind_exn r (\<lambda>data. getprop data ''collectibles'') of
                 Inr found \<Rightarrow> (evs, Inr (or_empty found))
               | Inl error \<Rightarrow>
                   (evs @ [ConsoleError ''Error fetching wallet collectibles:''],
                    Inr (JArr [])))"

subsection \<open>The route handler\<close>

text \<open>\<open>req.query\<close>: \<open>None\<close> is an absent parameter.\<close>

record query =
  q_walletAddress :: "qval option"
  q_tab :: "qval option"

text \<open>The object given to \<open>res.render\<close>.\<close>

record view =
  walletAddress :: qval
  currentTab :: qval
  totalWalletUSDValue :: string
  tokens :: "jsobject list"
  activities :: json
  collectibles :: json
  errorMessage :: "string option"

text \<open>The \<open>let\<close> variables of the handler (lines 141-145).\<close>

record vars =
  v_tokens :: "jsobject list"
  v_activities :: json
  v_collectibles :: json
  v_totalWalletUSDValue :: jsval
  v_errorMessage :: "string option"

text \<open>
  The handler either calls \<open>res.render\<close> with a view model, or throws: the promise of the
  \<open>async\<close> handler rejects and nothing is rendered.
\<close>

datatype outcome = Rendered view | Rejected exn

text \<open>
  Lines 151-156, the body of \<open>forEach\<close>. The result is the total when the loop ends and
  the exception that ended it, if any.
\<close>

fun forEach_total :: "env \<Rightarrow> jsobject list \<Rightarrow> jsval \<Rightarrow> jsval \<times> exn option" where
  "forEach_total E [] totalUSD = (totalUSD, None)"
| "forEach_total E (token # rest) totalUSD =
     (case parseFloat E (map_of token ''value_usd'') of
        Inl e \<Rightarrow> (totalUSD, Some e)
      | Inr individualValue \<Rightarrow>
          forEach_total E rest
            (if \<not> isNaN individualValue then plus_assign E totalUSD individualValue else totalUSD))"

text \<open>Lines 169-172, \<open>reduce\<close> from the accumulator \<open>acc\<close>.\<close>

fun reduce_total :: "env \<Rightarrow> jsobject list \<Rightarrow> jsnum \<Rightarrow> exn + jsnum" where
  "reduce_total E [] acc = Inr acc"
| "reduce_total E (token # rest) acc =
     (case parseFloat E (map_of token ''value_usd'') of
        Inl e \<Rightarrow> Inl e
      | Inr v \<Rightarrow> reduce_total E rest (jsadd acc (if isNaN v then Fin 0 else v)))"

text \<open>
  Lines 149-159: the loop over \<open>tokens\<close> and the formatting of the total. The result is
  the variables where the block ends, and the exception that ended it, if any.
\<close>

definition before_fetch :: "env \<Rightarrow> vars \<Rightarrow> vars \<times> exn option" where
  "before_fetch E v =
     (let (totalUSD, x) = (if v_tokens v \<noteq> [] then forEach_total E (v_tokens v) (v_totalWalletUSDValue v)
                        else (v_totalWalletUSDValue v, None));
          v1 = v\<lparr>v_totalWalletUSDValue := totalUSD\<rparr>
      in case x of
           Some e \<Rightarrow> (v1, Some e)
         | None \<Rightarrow>
             (case numbro E (v_totalWalletUSDValue v1) ''$0,0.00'' of
                Inl e \<Rightarrow> (v1, Some e)
              | Inr s \<Rightarrow> (v1\<lparr>v_totalWalletUSDValue := VStr s\<rparr>, None)))"

text \<open>
  Lines 161-173: the three fetches and the total. The three functions are called in
  this order and each runs to its end; they share no variable, so what each returns
  does not depend on the order in which the responses arrive, and the events of the
  three are listed one function after the other. \<open>Promise.all\<close> rejects with the first
  rejection, and the \<open>await\<close> then throws before any variable is assigned.
\<close>

definition fetch_all :: "env \<Rightarrow> qval \<Rightarrow> vars \<Rightarrow> event list \<times> vars \<times> exn option" where
  "fetch_all E address v =
     (let (evs_b, rb) = getWalletBalances E address;
          (evs_a, ra) = getWalletActivity E address 25;
          (evs_c, rc) = getWalletCollectibles E address 50;
          evs = evs_b @ evs_a @ evs_c
      in case bind_exn rb (\<lambda>b. bind_exn ra (\<lambda>a. bind_exn rc (\<lambda>c. Inr (b, a, c)))) of
           Inl e \<Rightarrow> (evs, v, Some e)
         | Inr (b, a, c) \<Rightarrow>
             let v1 = v\<lparr>v_tokens := b, v_activities := a, v_collectibles := c\<rparr>
             in if v_tokens v1 \<noteq> [] then
                  (case reduce_total E (v_tokens v1) (Fin 0) of
                     Inl e \<Rightarrow> (evs, v1, Some e)
                   | Inr totalUSD \<Rightarrow> (evs, v1\<lparr>v_totalWalletUSDValue := VNum totalUSD\<rparr>, None))
                else (evs, v1, None))"

text \<open>Lines 149-173, the body of \<open>try\<close>.\<close>

definition try_body :: "env \<Rightarrow> qval \<Rightarrow> vars \<Rightarrow> event list \<times> vars \<times> exn option" where
  "try_body E address v =
     (case before_fetch E v of
        (v1, Some e) \<Rightarrow> ([], v1, Some e)
      | (v1, None) \<Rightarrow> fetch_all E address v1)"

text \<open>Lines 174-177, \<open>catch\<close>.\<close>

definition catch_block :: "event list \<times> vars \<times> exn option \<Rightarrow> event list \<times> vars" where
  "catch_block r =
     (case r of
        (evs, v, None) \<Rightarrow> (evs, v)
      | (evs, v, Some error) \<Rightarrow>
          (evs @ [ConsoleError ''Error in route handler fetching all data:''],
           v\<lparr>v_errorMessage := Some ''Failed to fetch wallet data. Please try again.''\<rparr>))"

definition initial_vars :: vars where
  "initial_vars =
     \<lparr>v_tokens = [], v_activities = JArr [], v_collectibles = JArr [],
      v_totalWalletUSDValue = VNum (Fin 0), v_errorMessage = None\<rparr>"

text \<open>Lines 180-188.\<close>

definition render :: "env \<Rightarrow> qval \<Rightarrow> qval \<Rightarrow> vars \<Rightarrow> outcome" where
  "render E address tab v =
     (case toFixed E (v_totalWalletUSDValue v) 2 of
        Inl e \<Rightarrow> Rejected e
      | Inr s \<Rightarrow>
          Rendered \<lparr>walletAddress = address, currentTab = tab,
                    totalWalletUSDValue = ''$'' @ s, tokens = v_tokens v,
                    activities = v_activities v, collectibles = v_collectibles v,
                    errorMessage = v_errorMessage v\<rparr>)"

text \<open>Lines 135-189, \<open>app.get('/')\<close>.\<close>

definition handler :: "env \<Rightarrow> query \<Rightarrow> event list \<times> outcome" where
  "handler E q =
     (let address = (case q_walletAddress q of None \<Rightarrow> QStr '''' | Some w \<Rightarrow> w);
          tab = (case q_tab q of None \<Rightarrow> QStr ''tokens'' | Some t \<Rightarrow> t);
          (evs, v) = (if truthy_q address then catch_block (try_body E address initial_vars)
                      else ([], initial_vars))
      in (evs, render E address tab v))"

section \<open>Reference definitions\<close>

text \<open>
  The portfolio total in the words of the specification: the sum of the USD values of
  the tokens, a value that is not a number counting as 0.
\<close>

definition usd_or_zero :: "env \<Rightarrow> jsobject \<Rightarrow> jsnum" where
  "usd_or_zero E token =
     (case parseFloat E (map_of token ''value_usd'') of
        Inl e \<Rightarrow> Fin 0
      | Inr v \<Rightarrow> if isNaN v then Fin 0 else v)"

definition portfolio_total :: "env \<Rightarrow> jsobject list \<Rightarrow> jsnum" where
  "portfolio_total E ts = foldl jsadd (Fin 0) (map (usd_or_zero E) ts)"

text \<open>A property that is missing or holds a primitive value: not an array, not an object.\<close>

fun primitive :: "json option \<Rightarrow> bool" where
  "primitive None = True"
| "primitive (Some (JArr xs)) = False"
| "primitive (Some (JObj kvs)) = False"
| "primitive (Some v) = True"

text \<open>A property name made of decimal digits only, as the index of an array element is.\<close>

definition is_index_key :: "string \<Rightarrow> bool" where
  "is_index_key k = (set k \<subseteq> set ''0123456789'')"

text \<open>
  The handler without the loop of lines 150-157: before the fetches only line 159 runs.
\<close>

definition format_total :: "env \<Rightarrow> vars \<Rightarrow> vars \<times> exn option" where
  "format_total E v =
     (case numbro E (v_totalWalletUSDValue v) ''$0,0.00'' of
        Inl e \<Rightarrow> (v, Some e)
      | Inr s \<Rightarrow> (v\<lparr>v_totalWalletUSDValue := VStr s\<rparr>, None))"

definition try_body_without_loop :: "env \<Rightarrow> qval \<Rightarrow> vars \<Rightarrow> event list \<times> vars \<times> exn option" where
  "try_body_without_loop E address v =
     (case format_total E v of
        (v1, Some e) \<Rightarrow> ([], v1, Some e)
      | (v1, None) \<Rightarrow> fetch_all E address v1)"

definition handler_without_loop :: "env \<Rightarrow> query \<Rightarrow> event list \<times> outcome" where
  "handler_without_loop E q =
     (let address = (case q_walletAddress q of None \<Rightarrow> QStr '''' | Some w \<Rightarrow> w);
          tab = (case q_tab q of None \<Rightarrow> QStr ''tokens'' | Some t \<Rightarrow> t);
          (evs, v) = (if truthy_q address
                      then catch_block (try_body_without_loop E address initial_vars)
                      else ([], initial_vars))
      in (evs, render E address tab v))"

section \<open>Sample requests and environments\<close>

text \<open>
  The answers of the formatting library on the calls made in the examples below; any
  other call gets a fixed string.
\<close>

definition sample_numbro :: "jsval \<Rightarrow> string \<Rightarrow> exn + string" where
  "sample_numbro v f =
     (if f = ''$0,0.00'' \<and> v = VNum (Fin 0) then Inr ''$0.00''
      else if f = ''$0,0.00'' \<and> v = VNum (Fin (2469 / 2)) then Inr ''$1,234.50''
      else if f = ''$0,0.00'' \<and> v = VNum (Fin 99) then Inr ''$99.00''
      else if f = ''$0,0.00'' \<and> v = VNum (Fin (5 / 2)) then Inr ''$2.50''
      else if f = ''0,0.[00]A'' \<and> v = VNum (Fin (3 / 2)) then Inr ''1.5''
      else if f = ''0,0.[00]A'' \<and> v = VNum (Fin 1) then Inr ''1''
      else if f = ''0,0.[00]A'' \<and> v = VNum (Fin (5 / 2)) then Inr ''2.5''
      else Inr ''formatted'')"

text \<open>An engine whose \<open>Math.pow\<close> is correctly rounded.\<close>

definition sample_pow :: "int \<Rightarrow> jsnum" where
  "sample_pow n = to_binary64 (pow10 n)"

definition http_200 :: "json \<Rightarrow> fetch_result" where
  "http_200 data =
     Resolves \<lparr>status = 200, statusText = ''OK'', body_text = Inr '''', body_json = Inr data\<rparr>"

definition http_500 :: fetch_result where
  "http_500 =
     Resolves \<lparr>status = 500, statusText = ''Internal Server Error'',
               body_text = Inr '''', body_json = Inl SyntaxError\<rparr>"

text \<open>\<open>GET /?walletAddress=0xabc\<close>.\<close>

definition q_abc :: query where
  "q_abc = \<lparr>q_walletAddress = Some (QStr ''0xabc''), q_tab = None\<rparr>"

text \<open>\<open>GET /?walletAddress=0xabc&tab=nfts\<close>.\<close>

definition q_nfts :: query where
  "q_nfts = \<lparr>q_walletAddress = Some (QStr ''0xabc''), q_tab = Some (QStr ''nfts'')\<rparr>"

text \<open>
  \<open>GET /?walletAddress[toString]=x\<close>, as the extended query parser reads it: the object
  \<open>{toString: 'x'}\<close>.
\<close>

definition q_object :: query where
  "q_object = \<lparr>q_walletAddress = Some (QObj [(''toString'', QStr ''x'')]), q_tab = None\<rparr>"

definition eth_token :: json where
  "eth_token = JObj [(''symbol'', JStr ''ETH''), (''amount'', JStr ''1500000000000000000''),
                     (''decimals'', JNum (Fin 18)), (''value_usd'', JStr ''1234.5'')]"

definition spam_token :: json where
  "spam_token = JObj [(''symbol'', JStr ''RTFKT''), (''amount'', JStr ''1''),
                      (''decimals'', JNum (Fin 0)), (''value_usd'', JStr ''99'')]"

definition dai_token :: json where
  "dai_token = JObj [(''symbol'', JStr ''DAI''), (''amount'', JStr ''2500000000000000000''),
                     (''decimals'', JNum (Fin 18)), (''value_usd'', JStr ''2.5'')]"

text \<open>An upstream that answers every request with HTTP 500.\<close>

definition env_down :: env where
  "env_down =
     \<lparr>numbro = sample_numbro, Number_toString = (\<lambda>x. ''''), Math_pow = sample_pow,
      fetch = (\<lambda>url. http_500)\<rparr>"

text \<open>
  An upstream whose answer holds a spam token and another token (and no \<open>activity\<close> or
  \<open>collectibles\<close> key).
\<close>

definition upstream_spam :: "string \<Rightarrow> fetch_result" where
  "upstream_spam url = http_200 (JObj [(''balances'', JArr [spam_token, eth_token])])"

definition env_spam :: env where
  "env_spam =
     \<lparr>numbro = sample_numbro, Number_toString = (\<lambda>x. ''''), Math_pow = sample_pow,
      fetch = upstream_spam\<rparr>"

text \<open>An upstream whose answer holds two tokens around a spam token.\<close>

definition env_two :: env where
  "env_two =
     \<lparr>numbro = sample_numbro, Number_toString = (\<lambda>x. ''''), Math_pow = sample_pow,
      fetch = (\<lambda>url. http_200 (JObj [(''balances'', JArr [eth_token, spam_token, dai_token])]))\<rparr>"

text \<open>An upstream token that already has a property named \<open>amountFormatted\<close>.\<close>

definition relabelled_token :: json where
  "relabelled_token =
     JObj [(''symbol'', JStr ''ETH''), (''amountFormatted'', JNum (Fin 7)),
           (''amount'', JStr ''1500000000000000000''), (''decimals'', JNum (Fin 18)),
           (''value_usd'', JStr ''1234.5'')]"

definition env_relabelled :: env where
  "env_relabelled =
     \<lparr>numbro = sample_numbro, Number_toString = (\<lambda>x. ''''), Math_pow = sample_pow,
      fetch = (\<lambda>url. http_200 (JObj [(''balances'', JArr [relabelled_token])]))\<rparr>"

text \<open>A formatting library that throws on every call.\<close>

definition env_numbro_throws :: env where
  "env_numbro_throws =
     \<lparr>numbro = (\<lambda>v f. Inl LibraryError), Number_toString = (\<lambda>x. ''''),
      Math_pow = sample_pow, fetch = upstream_spam\<rparr>"

text \<open>
  A wallet without tokens: the balances and the collectibles endpoints answer, the
  activity endpoint fails.
\<close>

definition upstream_activity_down :: "string \<Rightarrow> fetch_result" where
  "upstream_activity_down url =
     (if url = balances_url ''0xabc'' then http_200 (JObj [(''balances'', JArr [])])
      else if url = collectibles_url ''0xabc'' 50
      then http_200 (JObj [(''collectibles'', JArr [JObj [(''name'', JStr ''Punk'')]])])
      else http_500)"

definition env_activity_down :: env where
  "env_activity_down =
     \<lparr>numbro = sample_numbro, Number_toString = (\<lambda>x. ''''), Math_pow = sample_pow,
      fetch = upstream_activity_down\<rparr>"

section \<open>Evaluation\<close>

lemma floor_rat_numeral [simp]:
  "\<lfloor>(numeral a / numeral b :: rat)\<rfloor> = numeral a div numeral b"
  by (metis floor_divide_of_int_eq of_int_numeral)

lemma ceiling_rat_numeral [simp]:
  "\<lceil>(numeral a / numeral b :: rat)\<rceil> = - ((- numeral a) div numeral b)"
  by (metis ceiling_divide_eq_div of_int_numeral)

lemmas b64_simps = to_binary64_def round_at_def binary64_value_def floor_log2_def
  round_half_even_def pow2_def bit_length.simps signed_zero_def signed_infinity_def

lemmas eval_simps = dec.simps digit_char_def code_def is_digit_def is_ws_def digits_val_def
  digit_val_def parseFloat_str_def unsigned_literal_def literal_value_def parse_exponent_def
  pow10_def parseInt_str_def is_hex_digit_def fixed_digits_def isNaN_def jsdiv_def b64_simps

lemmas sample_simps = sample_numbro_def sample_pow_def http_200_def http_500_def q_abc_def
  eth_token_def spam_token_def env_down_def upstream_spam_def env_spam_def
  env_numbro_throws_def

lemmas program_simps = getWalletBalances_def request_json_def ok_def format_balances_def
  format_token_def numericAmount_def numericValueUSD_def not_spam_def balances_url_def

lemmas handler_simps = handler_def try_body_def before_fetch_def fetch_all_def catch_block_def
  render_def initial_vars_def getWalletActivity_def getWalletCollectibles_def
  activity_url_def collectibles_url_def toFixed_num.simps

lemma toFixed_zero: "toFixed_num E (Fin 0) 2 = Inr ''0.00''"
  by (simp add: toFixed_num.simps eval_simps)

lemma toFixed_num_2: "\<exists>s. toFixed_num E x 2 = Inr s"
  by (cases x) (auto simp: toFixed_num.simps)

section \<open>Rounding\<close>

text \<open>
  The literals \<open>1.005\<close>, \<open>0.1\<close>, \<open>9007199254740993\<close> and \<open>999999999999999999999\<close> are not
  binary64 values: \<open>parseFloat\<close> reads the nearest one.
\<close>

lemma parseFloat_str_rounds:
  "parseFloat_str ''1.005'' = Fin (1131529406376837 / 1125899906842624)"
  "parseFloat_str ''0.1'' = Fin (3602879701896397 / 36028797018963968)"
  "parseFloat_str ''9007199254740993'' = Fin 9007199254740992"
  "parseFloat_str ''999999999999999999999'' = Fin (10 ^ 21)"
  by (simp_all add: eval_simps)

text \<open>So a total read from \<open>1.005\<close> prints as \<open>1.00\<close>.\<close>

lemma toFixed_below_the_tie:
  "bind_exn (parseFloat E (Some (JStr ''1.005''))) (\<lambda>x. toFixed_num E x 2) = Inr ''1.00''"
  by (simp add: bind_exn_def toFixed_num.simps eval_simps)

text \<open>A sum is rounded: \<open>0.1 + 0.2\<close> is not the Number read from \<open>0.3\<close>.\<close>

lemma jsadd_rounds:
  "jsadd (parseFloat_str ''0.1'') (parseFloat_str ''0.2'') =
     Fin (1351079888211149 / 4503599627370496)"
  "parseFloat_str ''0.3'' = Fin (5404319552844595 / 18014398509481984)"
  by (simp_all add: eval_simps)

text \<open>Literals beyond the range are an infinity or a zero.\<close>

lemma parseFloat_str_range:
  "parseFloat_str ''1e309'' = PosInf"
  "parseFloat_str ''-1e-324'' = NegZero"
  by (simp_all add: eval_simps)

section \<open>Exceptions and loops\<close>

lemma bind_exn_Inl [simp]: "bind_exn (Inl e) f = Inl e"
  by (simp add: bind_exn_def)

lemma bind_exn_Inr [simp]: "bind_exn (Inr x) f = f x"
  by (simp add: bind_exn_def)

lemma bind_exn_eq_Inr: "bind_exn m f = Inr y \<longleftrightarrow> (\<exists>x. m = Inr x \<and> f x = Inr y)"
  by (cases m) auto

lemma map_exn_eq_Inr: "map_exn f xs = Inr ys \<longleftrightarrow> list_all2 (\<lambda>x y. f x = Inr y) xs ys"
proof (induction xs arbitrary: ys)
  case Nil
  then show ?case by auto
next
  case (Cons x xs)
  then show ?case
    by (auto simp: bind_exn_eq_Inr list_all2_Cons1)
qed

text \<open>The loop ends with an exception exactly when the callback throws on some element.\<close>

lemma map_exn_eq_Inl: "(\<exists>e. map_exn f xs = Inl e) \<longleftrightarrow> (\<exists>x \<in> set xs. \<exists>e. f x = Inl e)"
proof (induction xs)
  case Nil
  then show ?case by simp
next
  case (Cons x xs)
  show ?case
  proof (cases "f x")
    case (Inl e)
    then show ?thesis by auto
  next
    case (Inr y)
    with Cons show ?thesis
      by (cases "map_exn f xs") auto
  qed
qed

lemma list_all2_rhs:
  "list_all2 P xs ys \<Longrightarrow> y \<in> set ys \<Longrightarrow> \<exists>x \<in> set xs. P x y"
  by (induction rule: list_all2_induct) auto

section \<open>Digits\<close>

lemma digit_char_in: "d < 10 \<Longrightarrow> digit_char d \<in> set ''0123456789''"
proof -
  assume "d < 10"
  then have "d \<in> {0, 1, 2, 3, 4, 5, 6, 7, 8, 9}" by auto
  then show ?thesis by (auto simp: digit_char_def)
qed

lemma dec_digits: "set (dec n) \<subseteq> set ''0123456789''"
proof (induction n rule: dec.induct)
  case (1 n)
  show ?case
  proof (cases "n < 10")
    case True
    then show ?thesis using digit_char_in [of n] by (subst dec.simps) simp
  next
    case False
    then have "set (dec (n div 10)) \<subseteq> set ''0123456789''" using 1 by simp
    moreover have "digit_char (n mod 10) \<in> set ''0123456789''"
      by (rule digit_char_in) simp
    ultimately show ?thesis using False by (subst dec.simps) simp
  qed
qed

section \<open>The formatted token\<close>

lemma map_of_index_keys: "\<not> is_index_key k \<Longrightarrow> map_of (index_keys i xs) k = None"
  using dec_digits by (induction xs arbitrary: i) (auto simp: is_index_key_def)

text \<open>
  A property read on the token and on its spread copy give the same value, for a name
  that is not an index.
\<close>

lemma spread_getprop:
  "getprop u k = Inr v \<Longrightarrow> \<not> is_index_key k \<Longrightarrow> map_of (spread u) k = v"
  by (cases u) (auto simp: map_of_index_keys)

text \<open>
  The callback of \<open>map\<close> returns exactly when the two values can be computed and the
  library formats both; the token it returns is the copy with the two strings set.
\<close>

lemma format_token_eq_Inr:
  "format_token E u = Inr t \<longleftrightarrow>
     (\<exists>amount valueUSD x y.
        numericAmount E u = Inr amount \<and> numericValueUSD E u = Inr valueUSD \<and>
        numbro E (VNum valueUSD) ''$0,0.00'' = Inr y \<and>
        numbro E (VNum amount) ''0,0.[00]A'' = Inr x \<and>
        t = AList.update ''amountFormatted'' (JStr x)
              (AList.update ''valueUSDFormatted'' (JStr y) (spread u)))"
  by (auto simp: format_token_def bind_exn_eq_Inr)

lemma format_token_shape:
  assumes "format_token E u = Inr t"
  shows "\<exists>a b. t = AList.update ''amountFormatted'' (JStr a)
                    (AList.update ''valueUSDFormatted'' (JStr b) (spread u))"
  using assms by (auto simp: format_token_eq_Inr)

lemma format_token_other_fields:
  assumes "format_token E u = Inr t" "k \<noteq> ''amountFormatted''" "k \<noteq> ''valueUSDFormatted''"
  shows "map_of t k = map_of (spread u) k"
  using format_token_shape [OF assms(1)] assms(2,3) by (auto simp: update_conv')

lemma format_token_symbol:
  assumes "format_token E u = Inr t" "getprop u ''symbol'' = Inr v"
  shows "map_of t ''symbol'' = v"
  using format_token_other_fields [OF assms(1), of "''symbol''"] spread_getprop [OF assms(2)]
  by (simp add: is_index_key_def)

lemma format_token_value_usd:
  assumes "format_token E u = Inr t"
  shows "\<exists>x. parseFloat E (map_of t ''value_usd'') = Inr x"
proof -
  from assms obtain v x where v: "getprop u ''value_usd'' = Inr v" and "parseFloat E v = Inr x"
    by (auto simp: format_token_def numericValueUSD_def bind_exn_eq_Inr)
  moreover have "map_of t ''value_usd'' = v"
    using format_token_other_fields [OF assms, of "''value_usd''"] spread_getprop [OF v]
    by (simp add: is_index_key_def)
  ultimately show ?thesis by auto
qed

section \<open>What the three functions return\<close>

text \<open>
  Each function rejects exactly when the address is truthy and has no string; it then
  has made no request and logged nothing.
\<close>

lemma getWalletBalances_rejects:
  "snd (getWalletBalances E a) = Inl e \<longleftrightarrow> truthy_q a \<and> ToString_q a = Inl e"
  by (auto simp: getWalletBalances_def Let_def split: sum.splits prod.splits)

lemma getWalletActivity_rejects:
  "snd (getWalletActivity E a l) = Inl e \<longleftrightarrow> truthy_q a \<and> ToString_q a = Inl e"
  by (auto simp: getWalletActivity_def Let_def split: sum.splits prod.splits)

lemma getWalletCollectibles_rejects:
  "snd (getWalletCollectibles E a l) = Inl e \<longleftrightarrow> truthy_q a \<and> ToString_q a = Inl e"
  by (auto simp: getWalletCollectibles_def Let_def split: sum.splits prod.splits)

lemma rejecting_address:
  assumes "truthy_q a" "ToString_q a = Inl e"
  shows "getWalletBalances E a = ([], Inl e)" "getWalletActivity E a l = ([], Inl e)"
    "getWalletCollectibles E a l' = ([], Inl e)"
  using assms
  by (simp_all add: getWalletBalances_def getWalletActivity_def getWalletCollectibles_def)

lemma resolving_address:
  assumes "snd (getWalletBalances E a) = Inr b"
  shows "\<exists>ac c. snd (getWalletActivity E a l) = Inr ac \<and> snd (getWalletCollectibles E a l') = Inr c"
proof -
  have "\<not> (truthy_q a \<and> ToString_q a = Inl e)" for e
    using assms getWalletBalances_rejects [of E a e] by simp
  then have "snd (getWalletActivity E a l) \<noteq> Inl e" "snd (getWalletCollectibles E a l') \<noteq> Inl e" for e
    by (simp_all add: getWalletActivity_rejects getWalletCollectibles_rejects)
  then show ?thesis
    by (cases "snd (getWalletActivity E a l)"; cases "snd (getWalletCollectibles E a l')") auto
qed

text \<open>
  For an answer with an array under \<open>balances\<close>: the formatted elements that pass the
  filter, in the order of the array, or the empty list when the callback throws.
\<close>

lemma getWalletBalances_array:
  assumes "truthy_q a" "ToString_q a = Inr s" "fetch E (balances_url s) = Resolves r" "ok r"
    and "body_json r = Inr data" "getprop data ''balances'' = Inr (Some (JArr us))"
  shows "getWalletBalances E a =
     (case map_exn (format_token E) us of
        Inr ts \<Rightarrow> ([Fetch (balances_url s)], Inr (filter not_spam ts))
      | Inl e \<Rightarrow> ([Fetch (balances_url s), ConsoleError ''Error fetching wallet balances:''],
                  Inr []))"
  using assms
  by (simp add: getWalletBalances_def request_json_def format_balances_def split: sum.splits)

text \<open>
  A result that is not empty comes from an answer with an array under \<open>balances\<close>, every
  element of which was formatted without an exception.
\<close>

lemma getWalletBalances_cases:
  assumes "snd (getWalletBalances E a) = Inr res" "res \<noteq> []"
  shows "\<exists>s r data us ts. truthy_q a \<and> ToString_q a = Inr s \<and>
      fetch E (balances_url s) = Resolves r \<and> ok r \<and> body_json r = Inr data \<and>
      getprop data ''balances'' = Inr (Some (JArr us)) \<and>
      list_all2 (\<lambda>u t. format_token E u = Inr t) us ts \<and> res = filter not_spam ts"
proof -
  from assms have t: "truthy_q a"
    by (cases "truthy_q a") (auto simp: getWalletBalances_def)
  with assms obtain s where s: "ToString_q a = Inr s"
    by (cases "ToString_q a") (auto simp: getWalletBalances_def)
  obtain evs r where rq: "request_json E (balances_url s) ''API request failed'' = (evs, r)"
    by (cases "request_json E (balances_url s) ''API request failed''")
  with assms t s obtain data where r: "r = Inr data"
    by (cases r) (auto simp: getWalletBalances_def)
  from rq r obtain resp where resp: "fetch E (balances_url s) = Resolves resp" "ok resp"
      "body_json resp = Inr data"
    by (auto simp: request_json_def split: fetch_result.splits if_splits sum.splits)
  from assms t s rq r have fb: "format_balances E data = Inr res"
    by (cases "format_balances E data") (auto simp: getWalletBalances_def)
  then obtain b ts where b: "getprop data ''balances'' = Inr b"
      and am: "array_map (format_token E) (or_empty b) = Inr ts" and res: "res = filter not_spam ts"
    by (auto simp: format_balances_def bind_exn_eq_Inr)
  from assms(2) res have "ts \<noteq> []" by auto
  with am obtain us where us: "or_empty b = JArr us" "map_exn (format_token E) us = Inr ts"
    by (cases "or_empty b") auto
  with \<open>ts \<noteq> []\<close> have "us \<noteq> []" by (auto simp: map_exn_eq_Inr)
  with us(1) have "b = Some (JArr us)"
    by (cases b) (auto split: if_splits)
  with t s resp b us res show ?thesis
    by (auto simp: map_exn_eq_Inr)
qed

lemma balances_value_usd:
  assumes "snd (getWalletBalances E a) = Inr res" "t \<in> set res"
  shows "\<exists>x. parseFloat E (map_of t ''value_usd'') = Inr x"
proof -
  from assms have "res \<noteq> []" by auto
  from getWalletBalances_cases [OF assms(1) this] obtain us ts where
    l: "list_all2 (\<lambda>u t. format_token E u = Inr t) us ts" and res: "res = filter not_spam ts"
    by blast
  from assms(2) res have "t \<in> set ts" by simp
  with list_all2_rhs [OF l] obtain u where "format_token E u = Inr t" by blast
  then show ?thesis by (rule format_token_value_usd)
qed

lemma eth_formatted:
  "snd (getWalletBalances env_spam (QStr ''0xabc'')) =
     Inr [[(''symbol'', JStr ''ETH''), (''amount'', JStr ''1500000000000000000''),
           (''decimals'', JNum (Fin 18)), (''value_usd'', JStr ''1234.5''),
           (''valueUSDFormatted'', JStr ''$1,234.50''), (''amountFormatted'', JStr ''1.5'')]]"
  by (simp add: program_simps sample_simps eval_simps)

section \<open>What the handler does\<close>

text \<open>The \<open>reduce\<close> of lines 169-172 does not throw on what getWalletBalances returned.\<close>

lemma reduce_total_sum:
  assumes "\<forall>t \<in> set ts. \<exists>x. parseFloat E (map_of t ''value_usd'') = Inr x"
  shows "reduce_total E ts acc = Inr (foldl jsadd acc (map (usd_or_zero E) ts))"
  using assms
proof (induction ts arbitrary: acc)
  case Nil
  then show ?case by simp
next
  case (Cons t ts)
  then obtain x where "parseFloat E (map_of t ''value_usd'') = Inr x" by auto
  with Cons show ?case by (simp add: usd_or_zero_def)
qed

lemma reduce_total_balances:
  assumes "snd (getWalletBalances E a) = Inr res"
  shows "reduce_total E res (Fin 0) = Inr (portfolio_total E res)"
  unfolding portfolio_total_def
  by (rule reduce_total_sum) (auto dest: balances_value_usd [OF assms])

lemma before_fetch_initial:
  "before_fetch E initial_vars =
     (case numbro E (VNum (Fin 0)) ''$0,0.00'' of
        Inl e \<Rightarrow> (initial_vars, Some e)
      | Inr s \<Rightarrow> (initial_vars\<lparr>v_totalWalletUSDValue := VStr s\<rparr>, None))"
  by (simp add: before_fetch_def initial_vars_def split: sum.splits)

text \<open>
  When the three functions resolve, the block of lines 161-173 ends without an exception.
\<close>

lemma fetch_all_resolves:
  assumes "snd (getWalletBalances E a) = Inr b" "snd (getWalletActivity E a 25) = Inr ac"
    and "snd (getWalletCollectibles E a 50) = Inr c"
  shows "fetch_all E a v =
     (fst (getWalletBalances E a) @ fst (getWalletActivity E a 25)
        @ fst (getWalletCollectibles E a 50),
      v\<lparr>v_tokens := b, v_activities := ac, v_collectibles := c,
        v_totalWalletUSDValue :=
          (if b \<noteq> [] then VNum (portfolio_total E b) else v_totalWalletUSDValue v)\<rparr>,
      None)"
  using reduce_total_balances [OF assms(1)] assms
  by (cases "getWalletBalances E a"; cases "getWalletActivity E a 25";
      cases "getWalletCollectibles E a 50") (auto simp: fetch_all_def)

text \<open>When they reject, no variable is assigned.\<close>

lemma fetch_all_rejects:
  assumes "truthy_q a" "ToString_q a = Inl e"
  shows "fetch_all E a v = ([], v, Some e)"
  by (simp add: fetch_all_def rejecting_address [OF assms])

lemma try_body_initial:
  "try_body E a initial_vars =
     (case numbro E (VNum (Fin 0)) ''$0,0.00'' of
        Inl e \<Rightarrow> ([], initial_vars, Some e)
      | Inr s \<Rightarrow> fetch_all E a (initial_vars\<lparr>v_totalWalletUSDValue := VStr s\<rparr>))"
  by (simp add: try_body_def before_fetch_initial split: sum.splits)

text \<open>
  The four ways of a request with an address: the formatting of line 159 throws; it
  returns and the address has no string; it returns and no token comes back; it returns
  and tokens come back.
\<close>

lemma handler_numbro_throws:
  assumes "q_walletAddress q = Some a" "truthy_q a" "numbro E (VNum (Fin 0)) ''$0,0.00'' = Inl e"
  shows "handler E q =
     ([ConsoleError ''Error in route handler fetching all data:''],
      Rendered \<lparr>walletAddress = a,
                currentTab = (case q_tab q of None \<Rightarrow> QStr ''tokens'' | Some t \<Rightarrow> t),
                totalWalletUSDValue = ''$0.00'', tokens = [], activities = JArr [],
                collectibles = JArr [],
                errorMessage = Some ''Failed to fetch wallet data. Please try again.''\<rparr>)"
  using assms
  by (simp add: handler_def try_body_initial catch_block_def render_def)
     (simp add: initial_vars_def toFixed_zero)

lemma handler_address_rejects:
  assumes "q_walletAddress q = Some a" "truthy_q a" "numbro E (VNum (Fin 0)) ''$0,0.00'' = Inr s"
    and "ToString_q a = Inl e"
  shows "handler E q =
     ([ConsoleError ''Error in route handler fetching all data:''], Rejected TypeError)"
  using assms
  by (simp add: handler_def try_body_initial fetch_all_rejects catch_block_def render_def)

lemma handler_no_tokens:
  assumes "q_walletAddress q = Some a" "truthy_q a" "numbro E (VNum (Fin 0)) ''$0,0.00'' = Inr s"
    and "snd (getWalletBalances E a) = Inr []"
  shows "snd (handler E q) = Rejected TypeError"
proof -
  from resolving_address [OF assms(4)] obtain ac c where
    "snd (getWalletActivity E a 25) = Inr ac" "snd (getWalletCollectibles E a 50) = Inr c"
    by blast
  from fetch_all_resolves [OF assms(4) this] assms(1-3) show ?thesis
    by (simp add: handler_def try_body_initial catch_block_def render_def)
qed

lemma handler_tokens:
  assumes "q_walletAddress q = Some a" "truthy_q a" "numbro E (VNum (Fin 0)) ''$0,0.00'' = Inr s"
    and "snd (getWalletBalances E a) = Inr b" "b \<noteq> []"
    and "snd (getWalletActivity E a 25) = Inr ac" "snd (getWalletCollectibles E a 50) = Inr c"
    and "toFixed_num E (portfolio_total E b) 2 = Inr str"
  shows "handler E q =
     (fst (getWalletBalances E a) @ fst (getWalletActivity E a 25)
        @ fst (getWalletCollectibles E a 50),
      Rendered \<lparr>walletAddress = a,
                currentTab = (case q_tab q of None \<Rightarrow> QStr ''tokens'' | Some t \<Rightarrow> t),
                totalWalletUSDValue = ''$'' @ str, tokens = b, activities = ac,
                collectibles = c, errorMessage = None\<rparr>)"
  using fetch_all_resolves [OF assms(4,6,7)] assms(1-3,5,8)
  by (simp add: handler_def try_body_initial catch_block_def render_def)
     (simp add: initial_vars_def)

text \<open>Whenever the handler renders, the tab of the view model is the one of the request.\<close>

lemma handler_tab_passthrough:
  assumes "handler E q = (evs, Rendered vm)"
  shows "currentTab vm = (case q_tab q of None \<Rightarrow> QStr ''tokens'' | Some t \<Rightarrow> t)"
  using assms
  by (auto simp: handler_def render_def Let_def split: prod.splits sum.splits)

text \<open>
  An exception caught by the handler after line 159 has returned leaves the string of that
  line in \<open>totalWalletUSDValue\<close>, and line 183 throws.
\<close>

lemma caught_exception_rejects:
  assumes "q_walletAddress q = Some a" "truthy_q a" "numbro E (VNum (Fin 0)) ''$0,0.00'' = Inr s"
    and "try_body E a initial_vars = (evs, v, Some e)"
  shows "snd (handler E q) = Rejected TypeError"
proof (cases "ToString_q a")
  case (Inl e')
  from handler_address_rejects [OF assms(1-3) Inl] show ?thesis by simp
next
  case (Inr str)
  then have "\<exists>b. snd (getWalletBalances E a) = Inr b"
    using getWalletBalances_rejects [of E a] by (cases "snd (getWalletBalances E a)") auto
  then obtain b where b: "snd (getWalletBalances E a) = Inr b" by blast
  from resolving_address [OF b] obtain ac c where
    "snd (getWalletActivity E a 25) = Inr ac" "snd (getWalletCollectibles E a 50) = Inr c"
    by blast
  from fetch_all_resolves [OF b this] assms(3,4) show ?thesis
    by (simp add: try_body_initial)
qed

section \<open>A failing balances call\<close>

text \<open>Every failure of the request ends in an exception inside the function's \<open>try\<close>.\<close>

lemma request_json_failure:
  assumes "fetch E url = Rejects e0 \<or>
           (\<exists>r. fetch E url = Resolves r \<and> (\<not> ok r \<or> (\<exists>e1. body_json r = Inl e1)))"
  shows "\<exists>e. snd (request_json E url label) = Inl e"
  using assms
  by (auto simp: request_json_def split: fetch_result.splits sum.splits)

text \<open>
  A network error, a response that is not 2xx and a body that is not JSON all give the
  empty list, and no exception.
\<close>

lemma getWalletBalances_upstream_failure:
  assumes "truthy_q a" "ToString_q a = Inr s"
    and "fetch E (balances_url s) = Rejects e0 \<or>
           (\<exists>r. fetch E (balances_url s) = Resolves r \<and> (\<not> ok r \<or> (\<exists>e1. body_json r = Inl e1)))"
  shows "snd (getWalletBalances E a) = Inr []"
proof -
  from request_json_failure [OF assms(3)] obtain e where
    "snd (request_json E (balances_url s) ''API request failed'') = Inl e" by blast
  then show ?thesis
    using assms(1,2)
    by (cases "request_json E (balances_url s) ''API request failed''")
       (simp add: getWalletBalances_def)
qed

text \<open>
  The handler then throws where it should render: the total is still the string of
  line 159, and a string has no \<open>toFixed\<close>.
\<close>

lemma handler_upstream_failure:
  assumes "q_walletAddress q = Some a" "truthy_q a" "numbro E (VNum (Fin 0)) ''$0,0.00'' = Inr s0"
    and "ToString_q a = Inr s"
    and "fetch E (balances_url s) = Rejects e0 \<or>
           (\<exists>r. fetch E (balances_url s) = Resolves r \<and> (\<not> ok r \<or> (\<exists>e1. body_json r = Inl e1)))"
  shows "snd (handler E q) = Rejected TypeError"
  using handler_no_tokens [OF assms(1-3)] getWalletBalances_upstream_failure [OF assms(2,4,5)]
  by simp

text \<open>
  C1. For the request \<open>GET /?walletAddress=0xabc\<close> and an upstream that answers HTTP 500,
  getWalletBalances returns the empty list without an exception, as the claim says; the
  handler does not render the page: line 183 throws a TypeError outside the \<open>try\<close>.
\<close>

theorem balances_failure_rejects:
  "snd (getWalletBalances env_down (QStr ''0xabc'')) = Inr [] \<and>
   snd (handler env_down q_abc) = Rejected TypeError"
  by (simp add: program_simps handler_simps sample_simps eval_simps)

section \<open>The portfolio total\<close>

text \<open>
  C2. For the request \<open>GET /?walletAddress=0xabc\<close> and a wallet whose one retained token is
  worth 1234.5, the total of the view model is \<open>$1234.50\<close>, without the thousands
  separator of the claim, next to the token's own \<open>$1,234.50\<close>. The call that formats the
  total with a separator stands at line 159, before the fetches, where the total is 0;
  line 183 prints the sum with \<open>toFixed(2)\<close>.
\<close>

theorem total_without_thousands_separator:
  "snd (handler env_spam q_abc) =
     Rendered \<lparr>walletAddress = QStr ''0xabc'', currentTab = QStr ''tokens'',
               totalWalletUSDValue = ''$1234.50'',
               tokens = [[(''symbol'', JStr ''ETH''), (''amount'', JStr ''1500000000000000000''),
                          (''decimals'', JNum (Fin 18)), (''value_usd'', JStr ''1234.5''),
                          (''valueUSDFormatted'', JStr ''$1,234.50''),
                          (''amountFormatted'', JStr ''1.5'')]],
               activities = JArr [], collectibles = JArr [], errorMessage = None\<rparr>"
  by (simp add: program_simps handler_simps sample_simps eval_simps)

section \<open>An exception in the handler's try block\<close>

text \<open>
  C3. For the request \<open>GET /?walletAddress[toString]=x\<close>, read by the extended query parser,
  the address is an object that has no string: the template literals of lines 37, 82 and
  110 throw outside the \<open>try\<close> of the three functions, \<open>Promise.all\<close> rejects and the
  handler's \<open>catch\<close> logs the exception and sets the error message. The handler does not
  render the error view of the claim: \<open>totalWalletUSDValue\<close> holds the string of line
  159, and line 183 throws a TypeError outside the \<open>try\<close>.
\<close>

theorem orchestration_failure_rejects:
  "try_body env_spam (QObj [(''toString'', QStr ''x'')]) initial_vars =
     ([], initial_vars\<lparr>v_totalWalletUSDValue := VStr ''$0.00''\<rparr>, Some TypeError) \<and>
   catch_block (try_body env_spam (QObj [(''toString'', QStr ''x'')]) initial_vars) =
     ([ConsoleError ''Error in route handler fetching all data:''],
      initial_vars\<lparr>v_totalWalletUSDValue := VStr ''$0.00'',
                    v_errorMessage := Some ''Failed to fetch wallet data. Please try again.''\<rparr>) \<and>
   handler env_spam q_object =
     ([ConsoleError ''Error in route handler fetching all data:''], Rejected TypeError)"
  by (simp add: program_simps handler_simps sample_simps q_object_def)

section \<open>The human-readable amount\<close>

text \<open>A string of digits reads as the integer it writes, rounded to binary64.\<close>

lemma is_digit_not_ws: "is_digit c \<Longrightarrow> \<not> is_ws c"
  by (auto simp: is_digit_def is_ws_def code_def)

lemma parseFloat_str_digits:
  assumes "s \<noteq> []" "list_all is_digit s"
  shows "parseFloat_str s = to_binary64 (of_int (digits_val 10 s))"
proof -
  from assms obtain c cs where s: "s = c # cs" and c: "is_digit c"
    by (cases s) auto
  from c have ws: "dropWhile is_ws s = s"
    by (simp add: s is_digit_not_ws)
  from c have sign: "parse_sign s = (False, s)"
    by (auto simp: s is_digit_def code_def)
  from c have inf: "take 8 s \<noteq> ''Infinity''"
    by (auto simp: s is_digit_def code_def)
  from assms(2) have all: "takeWhile is_digit s = s" "dropWhile is_digit s = []"
    by (simp_all add: list_all_iff)
  have "unsigned_literal s = to_binary64 (of_int (digits_val 10 s))"
    using inf assms(1)
    by (simp add: unsigned_literal_def all literal_value_def parse_exponent_def pow10_def
        digits_val_def)
  then show ?thesis
    by (simp add: parseFloat_str_def ws sign)
qed

text \<open>\<open>parseInt\<close> does not throw on a primitive value.\<close>

lemma parseInt_primitive: "primitive dv \<Longrightarrow> \<exists>n. parseInt E dv = Inr n"
  by (cases "(E, dv)" rule: parseInt.cases) (auto split: if_splits)

text \<open>
  C4, as stated, fails: for the amount \<open>abc\<close> the derived amount is \<open>NaN\<close>, not 0.
\<close>

theorem non_numeric_amount_is_NaN:
  "numericAmount env_spam (JObj [(''amount'', JStr ''abc''), (''decimals'', JNum (Fin 18))])
     = Inr NaN \<and>
   numericAmount env_spam (JObj [(''amount'', JStr ''abc''), (''decimals'', JNum (Fin 18))])
     \<noteq> Inr (Fin 0)"
  by (simp add: program_simps sample_simps eval_simps)

text \<open>
  C4, amended. For a token whose \<open>amount\<close> is a string \<open>s\<close> and whose \<open>decimals\<close> is missing
  or a primitive value, no exception is raised and the derived amount is the quotient, in
  binary64 arithmetic, of \<open>parseFloat(s)\<close> by \<open>Math.pow(10, n)\<close>, \<open>n\<close> being what \<open>parseInt\<close>
  reads from the decimals. It is \<open>NaN\<close> (not 0) when the amount or the decimals does not
  read as a number. When the amount reads as the finite Number \<open>x\<close>: for decimals from 0
  to 22 it is the binary64 value nearest to \<open>x / 10^n\<close>; for decimals of 309 or more it is
  a zero; for decimals of -324 or less it is an infinity, or \<open>NaN\<close> when \<open>x\<close> is 0. An
  amount made of digits only reads as the binary64 value nearest to the integer it
  writes. The derived amount is the number that the library formats into
  \<open>amountFormatted\<close>.
\<close>

theorem numericAmount_value:
  assumes "getprop token ''amount'' = Inr (Some (JStr s))"
    and "getprop token ''decimals'' = Inr dv" and "primitive dv"
  shows "\<exists>n. parseInt E dv = Inr n \<and>
           numericAmount E token = Inr (jsdiv (parseFloat_str s) (Math_pow10 E n)) \<and>
           (parseFloat_str s = NaN \<or> n = None \<longrightarrow> numericAmount E token = Inr NaN) \<and>
           (\<forall>x k. parseFloat_str s = Fin x \<and> n = Some k \<and> 0 \<le> k \<and> k \<le> 22
              \<longrightarrow> numericAmount E token = Inr (to_binary64 (x / 10 ^ nat k))) \<and>
           (\<forall>x k. parseFloat_str s = Fin x \<and> n = Some k \<and> 309 \<le> k
              \<longrightarrow> numericAmount E token = Inr (if x < 0 then NegZero else Fin 0)) \<and>
           (\<forall>x k. parseFloat_str s = Fin x \<and> n = Some k \<and> k \<le> - 324
              \<longrightarrow> numericAmount E token =
                    Inr (if x = 0 then NaN else if x < 0 then NegInf else PosInf)) \<and>
           (s \<noteq> [] \<and> list_all is_digit s
              \<longrightarrow> parseFloat_str s = to_binary64 (of_int (digits_val 10 s))) \<and>
           (\<forall>t. format_token E token = Inr t \<longrightarrow>
              (\<exists>str. numbro E (VNum (jsdiv (parseFloat_str s) (Math_pow10 E n))) ''0,0.[00]A''
                        = Inr str \<and>
                     map_of t ''amountFormatted'' = Some (JStr str)))"
proof -
  from assms(3) obtain n where n: "parseInt E dv = Inr n"
    using parseInt_primitive by blast
  let ?v = "jsdiv (parseFloat_str s) (Math_pow10 E n)"
  have v: "numericAmount E token = Inr ?v"
    using assms(1,2) n by (simp add: numericAmount_def)
  have nan: "?v = NaN" if "parseFloat_str s = NaN \<or> n = None"
    using that by (auto simp: jsdiv_def)
  have fin: "?v = to_binary64 (x / 10 ^ nat k)"
    if "parseFloat_str s = Fin x" "n = Some k" "0 \<le> k" "k \<le> 22" for x k
    using that by (simp add: jsdiv_def signed_zero_def to_binary64_def)
  have big: "?v = (if x < 0 then NegZero else Fin 0)"
    if "parseFloat_str s = Fin x" "n = Some k" "309 \<le> k" for x k
    using that by (simp add: jsdiv_def signed_zero_def)
  have small: "?v = (if x = 0 then NaN else if x < 0 then NegInf else PosInf)"
    if "parseFloat_str s = Fin x" "n = Some k" "k \<le> - 324" for x k
    using that by (simp add: jsdiv_def signed_infinity_def)
  have out: "\<exists>str. numbro E (VNum ?v) ''0,0.[00]A'' = Inr str \<and>
                 map_of t ''amountFormatted'' = Some (JStr str)"
    if "format_token E token = Inr t" for t
    using that v by (auto simp: format_token_eq_Inr update_conv')
  from n v nan fin big small out parseFloat_str_digits [of s] show ?thesis
    by (intro exI [of _ n] conjI allI impI) auto
qed

theorem numericAmount_value_witness:
  "getprop eth_token ''amount'' = Inr (Some (JStr ''1500000000000000000'')) \<and>
   getprop eth_token ''decimals'' = Inr (Some (JNum (Fin 18))) \<and>
   primitive (Some (JNum (Fin 18))) \<and>
   parseInt env_spam (Some (JNum (Fin 18))) = Inr (Some 18) \<and>
   parseFloat_str ''1500000000000000000'' = Fin 1500000000000000000 \<and>
   numericAmount env_spam eth_token = Inr (Fin (3 / 2))"
proof -
  have 1: "getprop eth_token ''amount'' = Inr (Some (JStr ''1500000000000000000''))"
    by (simp add: eth_token_def)
  have 2: "getprop eth_token ''decimals'' = Inr (Some (JNum (Fin 18)))"
    by (simp add: eth_token_def)
  have 3: "primitive (Some (JNum (Fin 18)))"
    by simp
  have 4: "parseInt env_spam (Some (JNum (Fin 18))) = Inr (Some 18)"
    by simp
  have 5: "parseFloat_str ''1500000000000000000'' = Fin 1500000000000000000"
    by (simp add: eval_simps)
  from numericAmount_value [OF 1 2 3, of env_spam] 4 5
  have "numericAmount env_spam eth_token = Inr (to_binary64 (1500000000000000000 / 10 ^ nat 18))"
    by auto
  then have "numericAmount env_spam eth_token = Inr (Fin (3 / 2))"
    by (simp add: b64_simps)
  with 1 2 3 4 5 show ?thesis by simp
qed

text \<open>
  The quotient is rounded, and decimals beyond the range give a zero and \<open>NaN\<close>, not a
  finite quotient.
\<close>

lemma numericAmount_examples:
  "numericAmount env_spam
     (JObj [(''amount'', JStr ''605371497350928252303''), (''decimals'', JNum (Fin 18))])
     = Inr (Fin (5324904003692109 / 8796093022208))"
  "numericAmount env_spam (JObj [(''amount'', JStr ''1''), (''decimals'', JNum (Fin 400))])
     = Inr (Fin 0)"
  "numericAmount env_spam (JObj [(''amount'', JStr ''0''), (''decimals'', JNum (Fin (- 400)))])
     = Inr NaN"
  by (simp_all add: program_simps sample_simps eval_simps)

section \<open>The spam filter\<close>

text \<open>
  C5. No token that getWalletBalances returns has the symbol \<open>RTFKT\<close>; and an upstream
  token with that symbol, whatever its other properties, is not in the result once it is
  formatted.
\<close>

theorem spam_tokens_absent:
  "(\<forall>ts. snd (getWalletBalances E a) = Inr ts
      \<longrightarrow> (\<forall>t \<in> set ts. map_of t ''symbol'' \<noteq> Some (JStr ''RTFKT''))) \<and>
   (map_of kvs ''symbol'' = Some (JStr ''RTFKT'') \<and> format_token E (JObj kvs) = Inr t
      \<longrightarrow> (\<forall>ts. snd (getWalletBalances E a) = Inr ts \<longrightarrow> t \<notin> set ts))"
proof -
  have 1: "map_of t' ''symbol'' \<noteq> Some (JStr ''RTFKT'')"
    if "snd (getWalletBalances E a) = Inr ts" "t' \<in> set ts" for ts t'
  proof -
    from that have "ts \<noteq> []" by auto
    from getWalletBalances_cases [OF that(1) this] that(2) show ?thesis
      by (auto simp: not_spam_def)
  qed
  have "map_of t ''symbol'' = Some (JStr ''RTFKT'')"
    if "map_of kvs ''symbol'' = Some (JStr ''RTFKT'')" "format_token E (JObj kvs) = Inr t"
    using format_token_symbol [OF that(2), of "Some (JStr ''RTFKT'')"] that(1) by simp
  with 1 show ?thesis by blast
qed

theorem spam_tokens_absent_witness:
  "snd (getWalletBalances env_spam (QStr ''0xabc'')) =
     Inr [[(''symbol'', JStr ''ETH''), (''amount'', JStr ''1500000000000000000''),
           (''decimals'', JNum (Fin 18)), (''value_usd'', JStr ''1234.5''),
           (''valueUSDFormatted'', JStr ''$1,234.50''), (''amountFormatted'', JStr ''1.5'')]] \<and>
   map_of [(''symbol'', JStr ''RTFKT''), (''amount'', JStr ''1''), (''decimals'', JNum (Fin 0)),
           (''value_usd'', JStr ''99'')] ''symbol'' = Some (JStr ''RTFKT'') \<and>
   format_token env_spam spam_token =
     Inr [(''symbol'', JStr ''RTFKT''), (''amount'', JStr ''1''), (''decimals'', JNum (Fin 0)),
          (''value_usd'', JStr ''99''), (''valueUSDFormatted'', JStr ''$99.00''),
          (''amountFormatted'', JStr ''1'')] \<and>
   [(''symbol'', JStr ''RTFKT''), (''amount'', JStr ''1''), (''decimals'', JNum (Fin 0)),
    (''value_usd'', JStr ''99''), (''valueUSDFormatted'', JStr ''$99.00''),
    (''amountFormatted'', JStr ''1'')]
     \<notin> set [[(''symbol'', JStr ''ETH''), (''amount'', JStr ''1500000000000000000''),
              (''decimals'', JNum (Fin 18)), (''value_usd'', JStr ''1234.5''),
              (''valueUSDFormatted'', JStr ''$1,234.50''), (''amountFormatted'', JStr ''1.5'')]]"
proof -
  let ?kvs = "[(''symbol'', JStr ''RTFKT''), (''amount'', JStr ''1''),
               (''decimals'', JNum (Fin 0)), (''value_usd'', JStr ''99'')]"
  let ?t = "[(''symbol'', JStr ''RTFKT''), (''amount'', JStr ''1''), (''decimals'', JNum (Fin 0)),
             (''value_usd'', JStr ''99''), (''valueUSDFormatted'', JStr ''$99.00''),
             (''amountFormatted'', JStr ''1'')]"
  have f: "format_token env_spam spam_token = Inr ?t"
    by (simp add: program_simps sample_simps eval_simps)
  have s: "map_of ?kvs ''symbol'' = Some (JStr ''RTFKT'')"
    by simp
  from spam_tokens_absent [of env_spam "QStr ''0xabc''" ?kvs ?t] f s eth_formatted
  show ?thesis
    by (simp add: spam_token_def)
qed

section \<open>A failing activity call\<close>

lemma getWalletActivity_upstream_failure:
  assumes "truthy_q a" "ToString_q a = Inr s"
    and "fetch E (activity_url s l) = Rejects e0 \<or>
           (\<exists>r. fetch E (activity_url s l) = Resolves r \<and> (\<not> ok r \<or> (\<exists>e1. body_json r = Inl e1)))"
  shows "snd (getWalletActivity E a l) = Inr (JArr [])"
proof -
  from request_json_failure [OF assms(3)] obtain e where
    "snd (request_json E (activity_url s l) ''Activity API request failed'') = Inl e" by blast
  then show ?thesis
    using assms(1,2)
    by (cases "request_json E (activity_url s l) ''Activity API request failed''")
       (simp add: getWalletActivity_def)
qed

text \<open>
  With at least one token the failure of the activity call is isolated: the view model
  has the tokens and the collectibles, and no activity.
\<close>

lemma activity_failure_isolated:
  assumes "q_walletAddress q = Some a" and "truthy_q a"
    and "numbro E (VNum (Fin 0)) ''$0,0.00'' = Inr s0"
    and "snd (getWalletBalances E a) = Inr b" and "b \<noteq> []"
    and "ToString_q a = Inr s"
    and "fetch E (activity_url s 25) = Rejects e0 \<or>
           (\<exists>r. fetch E (activity_url s 25) = Resolves r \<and> (\<not> ok r \<or> (\<exists>e1. body_json r = Inl e1)))"
  shows "\<exists>evs vm. handler E q = (evs, Rendered vm) \<and> tokens vm = b \<and>
           snd (getWalletCollectibles E a 50) = Inr (collectibles vm) \<and>
           activities vm = JArr [] \<and> errorMessage vm = None"
proof -
  obtain str where str: "toFixed_num E (portfolio_total E b) 2 = Inr str"
    using toFixed_num_2 by blast
  from resolving_address [OF assms(4)] obtain c where
    c: "snd (getWalletCollectibles E a 50) = Inr c" by blast
  note ac = getWalletActivity_upstream_failure [OF assms(2,6,7)]
  from handler_tokens [OF assms(1-5) ac c str] c show ?thesis by simp
qed

text \<open>
  C6. For the request \<open>GET /?walletAddress=0xabc\<close>, a wallet without tokens and an upstream
  whose activity endpoint answers HTTP 500 while the balances and the collectibles
  endpoints answer, the three functions return what the claim says (no token, no
  activity, the collectibles); the handler does not render them: line 183 throws a
  TypeError outside the \<open>try\<close>.
\<close>

theorem activity_failure_empty_wallet:
  "snd (getWalletBalances env_activity_down (QStr ''0xabc'')) = Inr [] \<and>
   snd (getWalletActivity env_activity_down (QStr ''0xabc'') 25) = Inr (JArr []) \<and>
   snd (getWalletCollectibles env_activity_down (QStr ''0xabc'') 50) =
     Inr (JArr [JObj [(''name'', JStr ''Punk'')]]) \<and>
   snd (handler env_activity_down q_abc) = Rejected TypeError"
  by (simp add: program_simps handler_simps sample_simps eval_simps
      upstream_activity_down_def env_activity_down_def)

section \<open>The empty address\<close>

text \<open>
  C7. When the \<open>walletAddress\<close> query parameter is absent or the empty string, the handler
  makes no outbound request (its list of events is empty) and renders a view model with no
  tokens, no activities, no collectibles, no error message and the total \<open>$0.00\<close>.
\<close>

theorem handler_empty_address:
  assumes "q_walletAddress q = None \<or> q_walletAddress q = Some (QStr '''')"
  shows "handler E q =
           ([], Rendered \<lparr>walletAddress = QStr '''',
                           currentTab = (case q_tab q of None \<Rightarrow> QStr ''tokens'' | Some t \<Rightarrow> t),
                           totalWalletUSDValue = ''$0.00'', tokens = [], activities = JArr [],
                           collectibles = JArr [], errorMessage = None\<rparr>)"
  using assms by (auto simp: handler_def render_def initial_vars_def toFixed_zero)

theorem handler_empty_address_witness:
  "q_walletAddress \<lparr>q_walletAddress = None, q_tab = None\<rparr> = None \<and>
   handler env_down \<lparr>q_walletAddress = None, q_tab = None\<rparr> =
     ([], Rendered \<lparr>walletAddress = QStr '''', currentTab = QStr ''tokens'',
                     totalWalletUSDValue = ''$0.00'', tokens = [], activities = JArr [],
                     collectibles = JArr [], errorMessage = None\<rparr>)"
  using handler_empty_address [of "\<lparr>q_walletAddress = None, q_tab = None\<rparr>" env_down]
  by simp

section \<open>The tab\<close>

text \<open>
  C8. For the request \<open>GET /?walletAddress=0xabc&tab=nfts\<close> and an upstream that answers
  HTTP 500, no view model is rendered, so the tab of the request reaches no view: line
  183 throws a TypeError outside the \<open>try\<close>. For the same request and a wallet with a
  token, and for a request without an address, the view model has the tab of the request.
\<close>

theorem tab_not_rendered:
  "snd (handler env_down q_nfts) = Rejected TypeError \<and>
   snd (handler env_spam q_nfts) =
     Rendered \<lparr>walletAddress = QStr ''0xabc'', currentTab = QStr ''nfts'',
               totalWalletUSDValue = ''$1234.50'',
               tokens = [[(''symbol'', JStr ''ETH''), (''amount'', JStr ''1500000000000000000''),
                          (''decimals'', JNum (Fin 18)), (''value_usd'', JStr ''1234.5''),
                          (''valueUSDFormatted'', JStr ''$1,234.50''),
                          (''amountFormatted'', JStr ''1.5'')]],
               activities = JArr [], collectibles = JArr [], errorMessage = None\<rparr> \<and>
   snd (handler env_down \<lparr>q_walletAddress = None, q_tab = Some (QStr ''nfts'')\<rparr>) =
     Rendered \<lparr>walletAddress = QStr '''', currentTab = QStr ''nfts'',
               totalWalletUSDValue = ''$0.00'', tokens = [], activities = JArr [],
               collectibles = JArr [], errorMessage = None\<rparr>"
  by (simp add: program_simps handler_simps sample_simps eval_simps q_nfts_def)

section \<open>The fields of a returned token\<close>

text \<open>
  C9, as stated, fails: an upstream token that has a property named \<open>amountFormatted\<close>
  comes back with that property overwritten.
\<close>

theorem original_field_overwritten:
  "getprop relabelled_token ''amountFormatted'' = Inr (Some (JNum (Fin 7))) \<and>
   snd (getWalletBalances env_relabelled (QStr ''0xabc'')) =
     Inr [[(''symbol'', JStr ''ETH''), (''amountFormatted'', JStr ''1.5''),
           (''amount'', JStr ''1500000000000000000''), (''decimals'', JNum (Fin 18)),
           (''value_usd'', JStr ''1234.5''), (''valueUSDFormatted'', JStr ''$1,234.50'')]]"
  by (simp add: program_simps sample_simps eval_simps relabelled_token_def env_relabelled_def)

text \<open>
  C9, amended. For an answer of the balances endpoint that is 2xx and has an array under
  \<open>balances\<close>: when every element of the array is formatted without an exception, the
  result of getWalletBalances is the formatted elements that pass the filter, in the order
  of the array; when formatting an element throws, the result is empty. An element is
  formatted exactly when its two derived values can be computed and the library formats
  both, and the formatted element is then the own properties of the upstream token with
  \<open>valueUSDFormatted\<close> and \<open>amountFormatted\<close> set to the two strings of the library (added
  after the others, or overwritten in place when the token had them): every property
  under another name is unchanged.
\<close>

theorem getWalletBalances_frame:
  assumes "truthy_q a" and "ToString_q a = Inr s"
    and "fetch E (balances_url s) = Resolves r" and "ok r" and "body_json r = Inr data"
    and "getprop data ''balances'' = Inr (Some (JArr us))"
  shows "(\<forall>ts. list_all2 (\<lambda>u t. format_token E u = Inr t) us ts
            \<longrightarrow> snd (getWalletBalances E a) = Inr (filter not_spam ts)) \<and>
         ((\<exists>u \<in> set us. \<exists>e. format_token E u = Inl e)
            \<longrightarrow> snd (getWalletBalances E a) = Inr []) \<and>
         (\<forall>u t. format_token E u = Inr t \<longleftrightarrow>
            (\<exists>amount valueUSD x y.
               numericAmount E u = Inr amount \<and> numericValueUSD E u = Inr valueUSD \<and>
               numbro E (VNum valueUSD) ''$0,0.00'' = Inr y \<and>
               numbro E (VNum amount) ''0,0.[00]A'' = Inr x \<and>
               t = AList.update ''amountFormatted'' (JStr x)
                     (AList.update ''valueUSDFormatted'' (JStr y) (spread u)))) \<and>
         (\<forall>u t k. format_token E u = Inr t \<and> k \<noteq> ''amountFormatted'' \<and>
                  k \<noteq> ''valueUSDFormatted''
            \<longrightarrow> map_of t k = map_of (spread u) k)"
proof -
  note g = getWalletBalances_array [OF assms]
  have 1: "snd (getWalletBalances E a) = Inr (filter not_spam ts)"
    if "list_all2 (\<lambda>u t. format_token E u = Inr t) us ts" for ts
  proof -
    from that have "map_exn (format_token E) us = Inr ts" by (simp add: map_exn_eq_Inr)
    with g show ?thesis by simp
  qed
  have 2: "snd (getWalletBalances E a) = Inr []"
    if "\<exists>u \<in> set us. \<exists>e. format_token E u = Inl e"
  proof -
    from that obtain e where "map_exn (format_token E) us = Inl e"
      using map_exn_eq_Inl [of "format_token E" us] by blast
    with g show ?thesis by simp
  qed
  from 1 2 format_token_eq_Inr [of E] format_token_other_fields [of E] show ?thesis
    by blast
qed

theorem getWalletBalances_frame_witness:
  "truthy_q (QStr ''0xabc'') \<and> ToString_q (QStr ''0xabc'') = Inr ''0xabc'' \<and>
   fetch env_two (balances_url ''0xabc'') =
     http_200 (JObj [(''balances'', JArr [eth_token, spam_token, dai_token])]) \<and>
   list_all2 (\<lambda>u t. format_token env_two u = Inr t) [eth_token, spam_token, dai_token]
     [[(''symbol'', JStr ''ETH''), (''amount'', JStr ''1500000000000000000''),
       (''decimals'', JNum (Fin 18)), (''value_usd'', JStr ''1234.5''),
       (''valueUSDFormatted'', JStr ''$1,234.50''), (''amountFormatted'', JStr ''1.5'')],
      [(''symbol'', JStr ''RTFKT''), (''amount'', JStr ''1''), (''decimals'', JNum (Fin 0)),
       (''value_usd'', JStr ''99''), (''valueUSDFormatted'', JStr ''$99.00''),
       (''amountFormatted'', JStr ''1'')],
      [(''symbol'', JStr ''DAI''), (''amount'', JStr ''2500000000000000000''),
       (''decimals'', JNum (Fin 18)), (''value_usd'', JStr ''2.5''),
       (''valueUSDFormatted'', JStr ''$2.50''), (''amountFormatted'', JStr ''2.5'')]] \<and>
   snd (getWalletBalances env_two (QStr ''0xabc'')) =
     Inr [[(''symbol'', JStr ''ETH''), (''amount'', JStr ''1500000000000000000''),
           (''decimals'', JNum (Fin 18)), (''value_usd'', JStr ''1234.5''),
           (''valueUSDFormatted'', JStr ''$1,234.50''), (''amountFormatted'', JStr ''1.5'')],
          [(''symbol'', JStr ''DAI''), (''amount'', JStr ''2500000000000000000''),
           (''decimals'', JNum (Fin 18)), (''value_usd'', JStr ''2.5''),
           (''valueUSDFormatted'', JStr ''$2.50''), (''amountFormatted'', JStr ''2.5'')]]"
proof -
  let ?ts = "[[(''symbol'', JStr ''ETH''), (''amount'', JStr ''1500000000000000000''),
       (''decimals'', JNum (Fin 18)), (''value_usd'', JStr ''1234.5''),
       (''valueUSDFormatted'', JStr ''$1,234.50''), (''amountFormatted'', JStr ''1.5'')],
      [(''symbol'', JStr ''RTFKT''), (''amount'', JStr ''1''), (''decimals'', JNum (Fin 0)),
       (''value_usd'', JStr ''99''), (''valueUSDFormatted'', JStr ''$99.00''),
       (''amountFormatted'', JStr ''1'')],
      [(''symbol'', JStr ''DAI''), (''amount'', JStr ''2500000000000000000''),
       (''decimals'', JNum (Fin 18)), (''value_usd'', JStr ''2.5''),
       (''valueUSDFormatted'', JStr ''$2.50''), (''amountFormatted'', JStr ''2.5'')]]"
  let ?data = "JObj [(''balances'', JArr [eth_token, spam_token, dai_token])]"
  let ?r = "\<lparr>status = 200, statusText = ''OK'', body_text = Inr '''', body_json = Inr ?data\<rparr>"
  have 1: "truthy_q (QStr ''0xabc'')" by simp
  have 2: "ToString_q (QStr ''0xabc'') = Inr ''0xabc''" by simp
  have 3: "fetch env_two (balances_url ''0xabc'') = Resolves ?r"
    by (simp add: env_two_def http_200_def)
  have 4: "ok ?r" by (simp add: ok_def)
  have 5: "body_json ?r = Inr ?data" by simp
  have 6: "getprop ?data ''balances'' = Inr (Some (JArr [eth_token, spam_token, dai_token]))"
    by simp
  have "format_token env_two eth_token = Inr (?ts ! 0)"
    "format_token env_two spam_token = Inr (?ts ! 1)"
    "format_token env_two dai_token = Inr (?ts ! 2)"
    by (simp_all add: format_token_def numericAmount_def numericValueUSD_def env_two_def
        sample_numbro_def eth_token_def spam_token_def dai_token_def eval_simps)
  then have 7: "list_all2 (\<lambda>u t. format_token env_two u = Inr t)
             [eth_token, spam_token, dai_token] ?ts"
    by simp
  from getWalletBalances_frame [OF 1 2 3 4 5 6, THEN conjunct1, rule_format, OF 7]
  have "snd (getWalletBalances env_two (QStr ''0xabc'')) = Inr (filter not_spam ?ts)" .
  then have "snd (getWalletBalances env_two (QStr ''0xabc'')) = Inr [?ts ! 0, ?ts ! 2]"
    by (simp add: not_spam_def)
  with 1 2 3 7 show ?thesis
    by (simp add: http_200_def)
qed

section \<open>The loop before the fetches\<close>

text \<open>
  C10. The handler is equal to the handler without the loop of lines 150-157; whenever
  the block before the fetches ends without an exception, \<open>totalWalletUSDValue\<close> is the
  string the library returned for the number 0; and whenever a request with a non-empty
  address is rendered without an error message, the total is a dollar sign followed by
  \<open>toFixed(2)\<close> of the result of the \<open>reduce\<close> over the tokens of the view model.
\<close>

theorem pre_fetch_loop_is_dead:
  "handler E q = handler_without_loop E q \<and>
   (\<forall>v. before_fetch E initial_vars = (v, None)
      \<longrightarrow> (\<exists>s. numbro E (VNum (Fin 0)) ''$0,0.00'' = Inr s \<and> v_totalWalletUSDValue v = VStr s)) \<and>
   (\<forall>a evs vm.
      q_walletAddress q = Some a \<and> truthy_q a \<and> handler E q = (evs, Rendered vm) \<and>
      errorMessage vm = None
      \<longrightarrow> (\<exists>x s. reduce_total E (tokens vm) (Fin 0) = Inr x \<and> toFixed_num E x 2 = Inr s \<and>
                 totalWalletUSDValue vm = ''$'' @ s))"
proof (intro conjI allI impI)
  have "before_fetch E initial_vars = format_total E initial_vars"
    by (simp add: before_fetch_initial format_total_def) (simp add: initial_vars_def)
  then have eq: "try_body E a initial_vars = try_body_without_loop E a initial_vars" for a
    by (simp add: try_body_def try_body_without_loop_def)
  show "handler E q = handler_without_loop E q"
    by (simp add: handler_def handler_without_loop_def Let_def eq)
next
  fix v
  assume "before_fetch E initial_vars = (v, None)"
  then show "\<exists>s. numbro E (VNum (Fin 0)) ''$0,0.00'' = Inr s \<and> v_totalWalletUSDValue v = VStr s"
    by (cases "numbro E (VNum (Fin 0)) ''$0,0.00''") (auto simp: before_fetch_initial)
next
  fix a evs vm
  assume a: "q_walletAddress q = Some a \<and> truthy_q a \<and> handler E q = (evs, Rendered vm) \<and>
      errorMessage vm = None"
  show "\<exists>x s. reduce_total E (tokens vm) (Fin 0) = Inr x \<and> toFixed_num E x 2 = Inr s \<and>
                 totalWalletUSDValue vm = ''$'' @ s"
  proof (cases "numbro E (VNum (Fin 0)) ''$0,0.00''")
    case (Inl e)
    from handler_numbro_throws [OF _ _ Inl, of q a] a show ?thesis by auto
  next
    case (Inr s0)
    show ?thesis
    proof (cases "snd (getWalletBalances E a)")
      case (Inl e)
      then have "ToString_q a = Inl e" by (simp add: getWalletBalances_rejects)
      from handler_address_rejects [OF _ _ Inr this, of q] a show ?thesis by auto
    next
      case b: (Inr b)
      show ?thesis
      proof (cases "b = []")
        case True
        from handler_no_tokens [OF _ _ Inr, of q a] a b True show ?thesis by auto
      next
        case False
        obtain str where str: "toFixed_num E (portfolio_total E b) 2 = Inr str"
          using toFixed_num_2 by blast
        from resolving_address [OF b] obtain ac c where
          "snd (getWalletActivity E a 25) = Inr ac" "snd (getWalletCollectibles E a 50) = Inr c"
          by blast
        from handler_tokens [OF _ _ Inr b False this str, of q] a
        have "tokens vm = b" "totalWalletUSDValue vm = ''$'' @ str"
          by auto
        with str reduce_total_balances [OF b] show ?thesis by auto
      qed
    qed
  qed
qed

theorem pre_fetch_loop_is_dead_witness:
  "handler env_spam q_abc = handler_without_loop env_spam q_abc \<and>
   before_fetch env_spam initial_vars =
     (initial_vars\<lparr>v_totalWalletUSDValue := VStr ''$0.00''\<rparr>, None) \<and>
   numbro env_spam (VNum (Fin 0)) ''$0,0.00'' = Inr ''$0.00'' \<and>
   (\<exists>evs vm. handler env_spam q_abc = (evs, Rendered vm) \<and> errorMessage vm = None \<and>
      reduce_total env_spam (tokens vm) (Fin 0) = Inr (Fin (2469 / 2)) \<and>
      totalWalletUSDValue vm = ''$1234.50'')"
proof -
  note th = pre_fetch_loop_is_dead [of env_spam q_abc]
  have b: "before_fetch env_spam initial_vars =
     (initial_vars\<lparr>v_totalWalletUSDValue := VStr ''$0.00''\<rparr>, None)"
    by (simp add: before_fetch_def initial_vars_def sample_simps)
  have n: "numbro env_spam (VNum (Fin 0)) ''$0,0.00'' = Inr ''$0.00''"
    by (simp add: sample_simps)
  have h: "snd (handler env_spam q_abc) =
     Rendered \<lparr>walletAddress = QStr ''0xabc'', currentTab = QStr ''tokens'',
               totalWalletUSDValue = ''$1234.50'',
               tokens = [[(''symbol'', JStr ''ETH''), (''amount'', JStr ''1500000000000000000''),
                          (''decimals'', JNum (Fin 18)), (''value_usd'', JStr ''1234.5''),
                          (''valueUSDFormatted'', JStr ''$1,234.50''),
                          (''amountFormatted'', JStr ''1.5'')]],
               activities = JArr [], collectibles = JArr [], errorMessage = None\<rparr>"
    by (simp add: program_simps handler_simps sample_simps eval_simps)
  have r: "reduce_total env_spam
             [[(''symbol'', JStr ''ETH''), (''amount'', JStr ''1500000000000000000''),
               (''decimals'', JNum (Fin 18)), (''value_usd'', JStr ''1234.5''),
               (''valueUSDFormatted'', JStr ''$1,234.50''),
               (''amountFormatted'', JStr ''1.5'')]] (Fin 0) = Inr (Fin (2469 / 2))"
    by (simp add: eval_simps)
  from h r have "\<exists>evs vm. handler env_spam q_abc = (evs, Rendered vm) \<and> errorMessage vm = None \<and>
      reduce_total env_spam (tokens vm) (Fin 0) = Inr (Fin (2469 / 2)) \<and>
      totalWalletUSDValue vm = ''$1234.50''"
    by (cases "handler env_spam q_abc") auto
  with th b n show ?thesis by blast
qed

end
